theory Spec2Isabelle
  imports Complex_Main "HOL-Library.Word"
begin

section \<open>The data model\<close>

subsection \<open>JSON values\<close>

text \<open>
  The payloads of the library are \<^verbatim>\<open>nlohmann::json\<close> values. The model keeps the
  constructors the gateway, the cache and the dispatcher use. An object is an association
  list; a lookup takes the first binding of a key and an assignment replaces it in place, so
  that keys stay unique as they are in the library's \<^verbatim>\<open>std::map\<close>. Floating-point numbers
  are left out.
\<close>

datatype json =
    JNull
  | JBool bool
  | JInt int
  | JString string
  | JArray "json list"
  | JObject "(string \<times> json) list"

text \<open>\<^verbatim>\<open>j.contains(key)\<close>: false on everything that is not an object.\<close>

fun contains :: "json \<Rightarrow> string \<Rightarrow> bool" where
  "contains (JObject kvs) k = (map_of kvs k \<noteq> None)"
| "contains _ k = False"

text \<open>
  A failed conversion or access throws a \<^verbatim>\<open>json::exception\<close>; the model returns \<open>None\<close>
  there. \<open>to_int32\<close> is the \<^verbatim>\<open>static_cast<int>\<close> of a stored 64-bit integer.
\<close>

definition to_int32 :: "int \<Rightarrow> int" where
  "to_int32 n = signed_take_bit 31 n"

fun get_int :: "json \<Rightarrow> int option" where
  "get_int (JInt n) = Some (to_int32 n)"
| "get_int (JBool b) = Some (if b then 1 else 0)"
| "get_int _ = None"

fun get_bool :: "json \<Rightarrow> bool option" where
  "get_bool (JBool b) = Some b"
| "get_bool _ = None"

fun get_string :: "json \<Rightarrow> string option" where
  "get_string (JString s) = Some s"
| "get_string _ = None"

text \<open>\<^verbatim>\<open>j[key]\<close> on a mutable value, after \<^verbatim>\<open>contains\<close> has been checked: a missing key
  reads as null, a value that is neither an object nor null throws.\<close>

fun at_key :: "json \<Rightarrow> string \<Rightarrow> json option" where
  "at_key (JObject kvs) k = (case map_of kvs k of None \<Rightarrow> Some JNull | Some v \<Rightarrow> Some v)"
| "at_key JNull k = Some JNull"
| "at_key _ k = None"

text \<open>\<^verbatim>\<open>j.value(key, default)\<close> for the three default types the code uses: the default
  when the key is absent, a conversion (which may throw) when it is present, and a throw
  when \<open>j\<close> is not an object.\<close>

fun value_int :: "json \<Rightarrow> string \<Rightarrow> int \<Rightarrow> int option" where
  "value_int (JObject kvs) k d = (case map_of kvs k of None \<Rightarrow> Some d | Some v \<Rightarrow> get_int v)"
| "value_int _ k d = None"

fun value_bool :: "json \<Rightarrow> string \<Rightarrow> bool \<Rightarrow> bool option" where
  "value_bool (JObject kvs) k d = (case map_of kvs k of None \<Rightarrow> Some d | Some v \<Rightarrow> get_bool v)"
| "value_bool _ k d = None"

fun value_string :: "json \<Rightarrow> string \<Rightarrow> string \<Rightarrow> string option" where
  "value_string (JObject kvs) k d = (case map_of kvs k of None \<Rightarrow> Some d | Some v \<Rightarrow> get_string v)"
| "value_string _ k d = None"

subsection \<open>Reconnection controller (\<^verbatim>\<open>gateway/reconnection.cpp\<close>)\<close>

text \<open>
  \<^verbatim>\<open>ReconnectionManager::SessionInfo\<close> and the manager's own fields (the source names end
  in an underscore). \<open>thread_running\<close> says whether the reconnect thread is inside its
  loop. The callbacks, the mutex and the never-read \<^verbatim>\<open>last_heartbeat\<close> are not state of
  the model; delays are milliseconds.
\<close>

record SessionInfo =
  session_id :: string
  sequence_number :: int
  can_resume :: bool

record ReconnectionManager =
  session_info :: SessionInfo
  auto_reconnect_enabled :: bool
  max_retries :: int
  base_delay :: int
  max_delay :: int
  is_reconnecting :: bool
  current_retry_count :: int
  should_stop :: bool
  thread_running :: bool

definition new_ReconnectionManager :: ReconnectionManager where
  "new_ReconnectionManager =
     \<lparr> session_info = \<lparr> session_id = [], sequence_number = 0, can_resume = False \<rparr>,
       auto_reconnect_enabled = True, max_retries = 5, base_delay = 1000, max_delay = 30000,
       is_reconnecting = False, current_retry_count = 0, should_stop = False,
       thread_running = False \<rparr>"

definition is_resumable_close_code :: "int \<Rightarrow> bool" where
  "is_resumable_close_code close_code =
     (if close_code \<in> {1000, 1001, 1006, 1009, 1011, 1012, 1013, 1014} then True
      else if close_code \<in> {4000, 4001, 4002, 4003, 4004, 4005, 4007, 4008, 4009,
                             4010, 4011, 4012, 4013, 4014} then False
      else 1000 \<le> close_code \<and> close_code < 2000)"

text \<open>\<^verbatim>\<open>start_reconnect_sequence\<close> starts the reconnect thread, whose loop is
  \<open>reconnect_turn\<close> below.\<close>

definition start_reconnect_sequence :: "ReconnectionManager \<Rightarrow> ReconnectionManager" where
  "start_reconnect_sequence rm =
     (if is_reconnecting rm then rm
      else rm\<lparr> is_reconnecting := True, current_retry_count := 0, should_stop := False,
              thread_running := True \<rparr>)"

definition clear_session :: "SessionInfo \<Rightarrow> SessionInfo" where
  "clear_session si = si\<lparr> can_resume := False, session_id := [], sequence_number := 0 \<rparr>"

definition handle_disconnect :: "int \<Rightarrow> string \<Rightarrow> ReconnectionManager \<Rightarrow> ReconnectionManager" where
  "handle_disconnect close_code reason rm =
     (if \<not> auto_reconnect_enabled rm then rm
      else
        let can = (is_resumable_close_code close_code \<and> can_resume (session_info rm));
            si = (if can then (session_info rm)\<lparr> can_resume := True \<rparr>
                  else clear_session (session_info rm))
        in start_reconnect_sequence (rm\<lparr> session_info := si \<rparr>))"

definition handle_invalid_session :: "bool \<Rightarrow> ReconnectionManager \<Rightarrow> ReconnectionManager" where
  "handle_invalid_session can rm =
     (let si0 = (session_info rm)\<lparr> can_resume := can \<rparr>;
          si = (if \<not> can then si0\<lparr> session_id := [], sequence_number := 0 \<rparr> else si0)
      in start_reconnect_sequence (rm\<lparr> session_info := si \<rparr>))"

text \<open>\<^verbatim>\<open>handle_connection_restored\<close> and \<^verbatim>\<open>stop_reconnecting\<close> signal the thread and
  join it. A thread stopped in its backoff wait returns at once and leaves
  \<^verbatim>\<open>is_reconnecting_\<close> alone; one stopped in the pause after an attempt leaves through the
  end of the loop, which clears the flag. \<open>in_pause\<close> says which of the two it is.\<close>

definition handle_connection_restored :: "ReconnectionManager \<Rightarrow> ReconnectionManager" where
  "handle_connection_restored rm =
     rm\<lparr> is_reconnecting := False, current_retry_count := 0, should_stop := True,
         thread_running := False \<rparr>"

definition stop_reconnecting :: "bool \<Rightarrow> ReconnectionManager \<Rightarrow> ReconnectionManager" where
  "stop_reconnecting in_pause rm =
     rm\<lparr> should_stop := True, thread_running := False,
         is_reconnecting := (if thread_running rm \<and> in_pause then False else is_reconnecting rm) \<rparr>"

definition should_resume :: "ReconnectionManager \<Rightarrow> bool" where
  "should_resume rm = (can_resume (session_info rm) \<and> session_id (session_info rm) \<noteq> [])"

definition reset_session :: "ReconnectionManager \<Rightarrow> ReconnectionManager" where
  "reset_session rm = rm\<lparr> session_info := clear_session (session_info rm) \<rparr>"

subsection \<open>Gateway connection (\<^verbatim>\<open>gateway/websocket_client.cpp\<close>)\<close>

text \<open>
  \<^verbatim>\<open>WebSocketClient::Impl\<close>. \<open>ws_session_id\<close> and \<open>last_sequence\<close> are the members
  \<^verbatim>\<open>session_id_\<close> and \<^verbatim>\<open>last_sequence_\<close>; \<open>heartbeat_interval\<close> is \<open>Some i\<close> once
  the heartbeat thread has been started with interval \<open>i\<close>. \<open>sent\<close> records the frames
  handed to the transport, \<open>delivered\<close> the payloads passed to the event callback. The
  inflate context plays no part in the properties below and is left out; a binary frame is
  taken after decompression, and a frame that does not parse is caught and has no effect.
\<close>

record WebSocketClient =
  is_connected :: bool
  token :: string
  intents :: int
  ws_session_id :: string
  last_sequence :: int
  reconnect_manager :: ReconnectionManager
  heartbeat_interval :: "int option"
  sent :: "json list"
  delivered :: "json list"

text \<open>The constructor initialises neither \<^verbatim>\<open>last_sequence_\<close> nor \<^verbatim>\<open>intents_\<close>: their
  initial values are parameters of the model.\<close>

definition new_WebSocketClient :: "int \<Rightarrow> int \<Rightarrow> WebSocketClient" where
  "new_WebSocketClient seq0 intents0 =
     \<lparr> is_connected = False, token = [], intents = intents0, ws_session_id = [],
       last_sequence = seq0, reconnect_manager = new_ReconnectionManager,
       heartbeat_interval = None, sent = [], delivered = [] \<rparr>"

definition send :: "json \<Rightarrow> WebSocketClient \<Rightarrow> WebSocketClient" where
  "send payload ws = (if is_connected ws then ws\<lparr> sent := sent ws @ [payload] \<rparr> else ws)"

definition identify_payload :: "string \<Rightarrow> int \<Rightarrow> json" where
  "identify_payload tok ints =
     JObject [(''op'', JInt 2),
              (''d'', JObject [(''token'', JString tok), (''intents'', JInt ints),
                               (''properties'', JObject [(''os'', JString ''linux''),
                                                         (''browser'', JString ''discord.cpp''),
                                                         (''device'', JString ''discord.cpp'')])])]"

definition resume_payload :: "string \<Rightarrow> string \<Rightarrow> int \<Rightarrow> json" where
  "resume_payload tok sid seq =
     JObject [(''op'', JInt 6),
              (''d'', JObject [(''token'', JString tok), (''session_id'', JString sid),
                               (''seq'', JInt seq)])]"

definition heartbeat_payload :: "int \<Rightarrow> json" where
  "heartbeat_payload seq = JObject [(''op'', JInt 1), (''d'', JInt seq)]"

definition identify :: "WebSocketClient \<Rightarrow> WebSocketClient" where
  "identify ws = send (identify_payload (token ws) (intents ws)) ws"

definition resume :: "WebSocketClient \<Rightarrow> WebSocketClient" where
  "resume ws =
     (if ws_session_id ws = [] then identify ws
      else send (resume_payload (token ws) (ws_session_id ws) (last_sequence ws)) ws)"

text \<open>
  \<^verbatim>\<open>ReconnectionManager::attempt_reconnection\<close> with the two callbacks the connection's
  constructor installs: the reconnect callback resumes or identifies, and the resume
  callback resumes once more.
\<close>

definition reconnect_callback :: "bool \<Rightarrow> WebSocketClient \<Rightarrow> WebSocketClient" where
  "reconnect_callback resuming ws = (if resuming then resume ws else identify ws)"

definition resume_callback :: "WebSocketClient \<Rightarrow> WebSocketClient" where
  "resume_callback ws = resume ws"

definition attempt_reconnection :: "WebSocketClient \<Rightarrow> WebSocketClient" where
  "attempt_reconnection ws =
     (let resuming = should_resume (reconnect_manager ws);
          ws1 = reconnect_callback resuming ws
      in if resuming then resume_callback ws1 else ws1)"

text \<open>One turn of the loop of \<^verbatim>\<open>exponential_backoff_reconnect\<close> whose backoff wait runs
  to its end: the attempt and the count. When the loop condition fails the thread clears
  \<^verbatim>\<open>is_reconnecting_\<close> and ends.\<close>

definition reconnect_turn :: "WebSocketClient \<Rightarrow> WebSocketClient" where
  "reconnect_turn ws =
     (let rm = reconnect_manager ws in
      if \<not> thread_running rm then ws
      else if \<not> should_stop rm \<and> current_retry_count rm < max_retries rm then
        (let ws1 = attempt_reconnection ws
         in ws1\<lparr> reconnect_manager :=
                   (reconnect_manager ws1)\<lparr> current_retry_count := current_retry_count rm + 1 \<rparr> \<rparr>)
      else ws\<lparr> reconnect_manager := rm\<lparr> is_reconnecting := False, thread_running := False \<rparr> \<rparr>)"

definition start_heartbeat :: "int \<Rightarrow> WebSocketClient \<Rightarrow> WebSocketClient" where
  "start_heartbeat interval_ms ws = ws\<lparr> heartbeat_interval := Some interval_ms \<rparr>"

text \<open>One turn of the heartbeat thread's loop, after its sleep.\<close>

definition heartbeat_tick :: "WebSocketClient \<Rightarrow> WebSocketClient" where
  "heartbeat_tick ws =
     (if heartbeat_interval ws \<noteq> None \<and> is_connected ws
      then send (heartbeat_payload (last_sequence ws)) ws else ws)"

text \<open>The opcode part of the message handler; \<open>None\<close> when a conversion throws, which the
  handler catches without calling the event callback.\<close>

definition handle_gateway_op :: "json \<Rightarrow> WebSocketClient \<Rightarrow> WebSocketClient option" where
  "handle_gateway_op payload ws =
     (if contains payload ''op'' then
        (case Option.bind (at_key payload ''op'') get_int of
           None \<Rightarrow> None
         | Some opcode \<Rightarrow>
             if opcode = 10 then
               (case at_key payload ''d'' of
                  None \<Rightarrow> None
                | Some d \<Rightarrow>
                    if contains payload ''d'' \<and> contains d ''heartbeat_interval'' then
                      (case Option.bind (at_key d ''heartbeat_interval'') get_int of
                         None \<Rightarrow> None
                       | Some interval \<Rightarrow> Some (start_heartbeat interval ws))
                    else Some ws)
             else if opcode = 9 then
               (case value_bool payload ''d'' False of
                  None \<Rightarrow> None
                | Some can \<Rightarrow>
                    Some (ws\<lparr> reconnect_manager :=
                                handle_invalid_session can (reconnect_manager ws) \<rparr>))
             else if opcode = 7 then
               Some (ws\<lparr> reconnect_manager :=
                           handle_disconnect 1000 ''Reconnect requested by Discord''
                             (reconnect_manager ws) \<rparr>)
             else Some ws)
      else Some ws)"

definition message_handler :: "json \<Rightarrow> WebSocketClient \<Rightarrow> WebSocketClient" where
  "message_handler payload ws =
     (case handle_gateway_op payload ws of
        None \<Rightarrow> ws
      | Some ws1 \<Rightarrow> ws1\<lparr> delivered := delivered ws1 @ [payload] \<rparr>)"

definition open_handler :: "WebSocketClient \<Rightarrow> WebSocketClient" where
  "open_handler ws =
     ws\<lparr> is_connected := True,
         reconnect_manager := handle_connection_restored (reconnect_manager ws) \<rparr>"

definition close_handler :: "int \<Rightarrow> string \<Rightarrow> WebSocketClient \<Rightarrow> WebSocketClient" where
  "close_handler close_code reason ws =
     ws\<lparr> is_connected := False,
         reconnect_manager := handle_disconnect close_code reason (reconnect_manager ws) \<rparr>"

text \<open>Everything that can happen to a connection: transport events, the two background
  threads, and the public operations of \<^verbatim>\<open>WebSocketClient\<close>.\<close>

datatype gateway_event =
    Opened
  | Closed int string
  | Message json
  | HeartbeatTick
  | ReconnectTurn
  | Send json
  | Identify
  | SetToken string
  | SetIntents int
  | EnableAutoReconnect bool
  | SetReconnectionConfig int int int
  | StopReconnecting bool

fun gateway_step :: "gateway_event \<Rightarrow> WebSocketClient \<Rightarrow> WebSocketClient" where
  "gateway_step Opened ws = open_handler ws"
| "gateway_step (Closed c r) ws = close_handler c r ws"
| "gateway_step (Message p) ws = message_handler p ws"
| "gateway_step HeartbeatTick ws = heartbeat_tick ws"
| "gateway_step ReconnectTurn ws = reconnect_turn ws"
| "gateway_step (Send p) ws = send p ws"
| "gateway_step Identify ws = identify ws"
| "gateway_step (SetToken t) ws = ws\<lparr> token := t \<rparr>"
| "gateway_step (SetIntents i) ws = ws\<lparr> intents := i \<rparr>"
| "gateway_step (EnableAutoReconnect b) ws =
     ws\<lparr> reconnect_manager := (reconnect_manager ws)\<lparr> auto_reconnect_enabled := b \<rparr> \<rparr>"
| "gateway_step (SetReconnectionConfig r b m) ws =
     ws\<lparr> reconnect_manager :=
           (reconnect_manager ws)\<lparr> max_retries := r, base_delay := b, max_delay := m \<rparr> \<rparr>"
| "gateway_step (StopReconnecting in_pause) ws =
     ws\<lparr> reconnect_manager := stop_reconnecting in_pause (reconnect_manager ws) \<rparr>"

fun gateway_run :: "gateway_event list \<Rightarrow> WebSocketClient \<Rightarrow> WebSocketClient" where
  "gateway_run [] ws = ws"
| "gateway_run (e # es) ws = gateway_run es (gateway_step e ws)"

text \<open>Neither the connection nor its controller holds a session id.\<close>

definition no_session :: "WebSocketClient \<Rightarrow> bool" where
  "no_session ws =
     (ws_session_id ws = [] \<and> session_id (session_info (reconnect_manager ws)) = [])"

text \<open>Payloads as the gateway sends them: HELLO, a DISPATCH of type \<open>t\<close> with sequence
  \<open>s\<close>, and RECONNECT.\<close>

definition hello_payload :: "int \<Rightarrow> json" where
  "hello_payload interval =
     JObject [(''op'', JInt 10), (''d'', JObject [(''heartbeat_interval'', JInt interval)])]"

definition dispatch_payload :: "string \<Rightarrow> int \<Rightarrow> json \<Rightarrow> json" where
  "dispatch_payload t s d = JObject [(''op'', JInt 0), (''t'', JString t), (''s'', JInt s), (''d'', d)]"

definition reconnect_payload :: json where
  "reconnect_payload = JObject [(''op'', JInt 7), (''d'', JNull)]"

subsection \<open>HTTP request pipeline (\<^verbatim>\<open>api/http_client.cpp\<close>)\<close>

text \<open>\<^verbatim>\<open>std::to_string\<close> on an integer.\<close>

function string_of_nat :: "nat \<Rightarrow> string" where
  "string_of_nat n =
     (if n < 10 then [''0123456789'' ! n]
      else string_of_nat (n div 10) @ [''0123456789'' ! (n mod 10)])"
  by pat_completeness auto
termination
  by (relation "measure id") auto

declare string_of_nat.simps [simp del]

definition to_string :: "int \<Rightarrow> string" where
  "to_string i = (if i < 0 then CHR ''-'' # string_of_nat (nat (- i)) else string_of_nat (nat i))"

text \<open>
  A queued request carries the number of its promise. The transport (libcurl) and the JSON
  parser are outside the repository and are parameters: the transport maps what
  \<^verbatim>\<open>perform_request\<close> hands to curl to a failure or to a response with its status code,
  its body and its raw header block; the parser returns \<open>None\<close> where it throws.
\<close>

record Request =
  rq_promise :: nat
  rq_method :: string
  rq_url :: string
  rq_data :: json
  rq_headers :: "(string \<times> string) list"

record CurlCall =
  c_url :: string
  c_method :: string
  c_body :: "json option"
  c_headers :: "string list"

datatype transport_result =
    CurlFailure string
  | Response int string string

datatype http_error =
    RuntimeError string
  | JsonParseError
  | ShuttingDown

definition get_default_headers :: "string \<Rightarrow> (string \<times> string) list" where
  "get_default_headers tok =
     [(''Authorization'', ''Bot '' @ tok),
      (''User-Agent'', ''DiscordBot (https://github.com/discordcpp/discord.cpp, 1.0.0)''),
      (''Content-Type'', ''application/json'')]"

definition curl_call :: "string \<Rightarrow> Request \<Rightarrow> CurlCall" where
  "curl_call tok rq =
     (let has_body = (rq_method rq \<in> {''POST'', ''PUT'', ''PATCH''}) in
      \<lparr> c_url = rq_url rq, c_method = rq_method rq,
        c_body = (if has_body then Some (rq_data rq) else None),
        c_headers = map (\<lambda>(k, v). k @ '': '' @ v) (get_default_headers tok @ rq_headers rq)
                    @ (if has_body then [''Content-Type: application/json''] else []) \<rparr>)"

text \<open>The message appended to the error text: the body's \<^verbatim>\<open>message\<close> member when the
  body parses and the member is a string; every exception on the way is swallowed.\<close>

definition error_detail :: "(string \<Rightarrow> json option) \<Rightarrow> string \<Rightarrow> string" where
  "error_detail parse body =
     (if body = [] then []
      else case parse body of
             None \<Rightarrow> []
           | Some j \<Rightarrow>
               if contains j ''message'' then
                 (case Option.bind (at_key j ''message'') get_string of
                    None \<Rightarrow> []
                  | Some m \<Rightarrow> '': '' @ m)
               else [])"

definition perform_request ::
  "(CurlCall \<Rightarrow> transport_result) \<Rightarrow> (string \<Rightarrow> json option) \<Rightarrow> string \<Rightarrow> Request
     \<Rightarrow> http_error + string" where
  "perform_request transport parse tok rq =
     (case transport (curl_call tok rq) of
        CurlFailure msg \<Rightarrow> Inl (RuntimeError (''CURL error: '' @ msg))
      | Response response_code body header_response \<Rightarrow>
          if response_code \<ge> 400 then
            Inl (RuntimeError (''HTTP error '' @ to_string response_code @ error_detail parse body))
          else Inr body)"

text \<open>
  The client: the FIFO queue, the running flag, the completed promises in the order of
  completion, and a log of the promises for which the transport has been called.
\<close>

record HTTPClient =
  request_queue :: "Request list"
  running :: bool
  http_token :: string
  completed :: "(nat \<times> (http_error + json)) list"
  performed :: "nat list"

text \<open>One turn of \<^verbatim>\<open>worker_loop\<close>; with an empty queue the worker waits.\<close>

definition worker_step ::
  "(CurlCall \<Rightarrow> transport_result) \<Rightarrow> (string \<Rightarrow> json option) \<Rightarrow> HTTPClient \<Rightarrow> HTTPClient" where
  "worker_step transport parse hc =
     (if \<not> running hc then hc
      else case request_queue hc of
             [] \<Rightarrow> hc
           | rq # rest \<Rightarrow>
               (let outcome =
                      (case perform_request transport parse (http_token hc) rq of
                         Inl e \<Rightarrow> Inl e
                       | Inr response \<Rightarrow>
                           if response = [] then Inr JNull
                           else (case parse response of
                                   None \<Rightarrow> Inl JsonParseError
                                 | Some j \<Rightarrow> Inr j))
                in hc\<lparr> request_queue := rest,
                       completed := completed hc @ [(rq_promise rq, outcome)],
                       performed := performed hc @ [rq_promise rq] \<rparr>))"

definition submit :: "Request \<Rightarrow> HTTPClient \<Rightarrow> HTTPClient" where
  "submit rq hc = hc\<lparr> request_queue := request_queue hc @ [rq] \<rparr>"

subsection \<open>Rate limiter (\<^verbatim>\<open>api/rate_limiter.cpp\<close>)\<close>

text \<open>
  Instants and durations of the steady clock are integer tick counts. A probe reads the
  clock once: \<open>now\<close> is a parameter. The two hash maps are partial functions, the queue of
  request times a list with its front first.
\<close>

record RateLimitInfo =
  remaining :: int
  limit :: int
  reset_time :: int
  global :: bool

record EndpointLimit =
  max_requests :: int
  window :: int
  request_times :: "int list"

record RateLimiter =
  rate_limits :: "string \<rightharpoonup> RateLimitInfo"
  endpoint_limits :: "string \<rightharpoonup> EndpointLimit"
  global_reset_time :: int

definition default_RateLimitInfo :: RateLimitInfo where
  "default_RateLimitInfo = \<lparr> remaining = - 1, limit = - 1, reset_time = 0, global = False \<rparr>"

definition new_RateLimiter :: RateLimiter where
  "new_RateLimiter = \<lparr> rate_limits = Map.empty, endpoint_limits = Map.empty, global_reset_time = 0 \<rparr>"

definition update_limits :: "string \<Rightarrow> RateLimitInfo \<Rightarrow> RateLimiter \<Rightarrow> RateLimiter" where
  "update_limits endpoint info rl =
     (let rl1 = rl\<lparr> rate_limits := (rate_limits rl)(endpoint \<mapsto> info) \<rparr>
      in if global info then rl1\<lparr> global_reset_time := reset_time info \<rparr> else rl1)"

definition set_global_limit :: "int \<Rightarrow> int \<Rightarrow> RateLimiter \<Rightarrow> RateLimiter" where
  "set_global_limit delay now rl = rl\<lparr> global_reset_time := now + delay \<rparr>"

definition set_endpoint_limit :: "string \<Rightarrow> int \<Rightarrow> int \<Rightarrow> RateLimiter \<Rightarrow> RateLimiter" where
  "set_endpoint_limit endpoint maxr win rl =
     rl\<lparr> endpoint_limits := (endpoint_limits rl)
            (endpoint \<mapsto> \<lparr> max_requests = maxr, window = win, request_times = [] \<rparr>) \<rparr>"

definition cleanup_old_requests :: "string \<Rightarrow> int \<Rightarrow> RateLimiter \<Rightarrow> RateLimiter" where
  "cleanup_old_requests endpoint now rl =
     (case endpoint_limits rl endpoint of
        None \<Rightarrow> rl
      | Some el \<Rightarrow>
          rl\<lparr> endpoint_limits := (endpoint_limits rl)
                 (endpoint \<mapsto> el\<lparr> request_times :=
                     dropWhile (\<lambda>t. t < now - window el) (request_times el) \<rparr>) \<rparr>)"

text \<open>\<^verbatim>\<open>static_cast<size_t>\<close> of an \<^verbatim>\<open>int\<close>: a negative count wraps to a huge one.\<close>

definition to_size_t :: "int \<Rightarrow> nat" where
  "to_size_t n = nat (n mod 2 ^ 64)"

text \<open>Whether the endpoint's local window is full once the old requests are dropped.\<close>

definition window_saturated :: "string \<Rightarrow> int \<Rightarrow> RateLimiter \<Rightarrow> bool" where
  "window_saturated endpoint now rl =
     (case endpoint_limits (cleanup_old_requests endpoint now rl) endpoint of
        None \<Rightarrow> False
      | Some el \<Rightarrow> length (request_times el) \<ge> to_size_t (max_requests el))"

definition can_make_request :: "string \<Rightarrow> int \<Rightarrow> RateLimiter \<Rightarrow> bool \<times> RateLimiter" where
  "can_make_request endpoint now rl =
     (if now < global_reset_time rl then (False, rl)
      else if (case rate_limits rl endpoint of
                 None \<Rightarrow> False
               | Some info \<Rightarrow> remaining info \<ge> 0 \<and> remaining info = 0 \<and> now < reset_time info)
      then (False, rl)
      else if endpoint_limits rl endpoint \<noteq> None then
        (let rl1 = cleanup_old_requests endpoint now rl
         in if window_saturated endpoint now rl then (False, rl1) else (True, rl1))
      else (True, rl))"

subsection \<open>Backoff delay (\<^verbatim>\<open>ReconnectionManager::calculate_backoff_delay\<close>)\<close>

text \<open>
  The source computes the delay in double precision and casts it to a 64-bit integer.
  \<open>round_double\<close> is the rounding of a real to the nearest double, ties to the even
  mantissa: the value is cut to 53 significant bits at its own binary exponent. Every
  arithmetic operation on doubles is the exact operation followed by this rounding.
  The rounding takes no account of the ends of the exponent range; the delay function
  below treats them itself.
\<close>

definition round_half_even :: "real \<Rightarrow> int" where
  "round_half_even t =
     (let r = \<lfloor>t\<rfloor>; f = t - of_int r
      in if f < 1 / 2 then r else if f > 1 / 2 then r + 1 else if even r then r else r + 1)"

definition round_double :: "real \<Rightarrow> real" where
  "round_double x =
     (if x = 0 then 0
      else let e = \<lfloor>log 2 \<bar>x\<bar>\<rfloor> - 52; q = 2 powr of_int e
           in of_int (round_half_even (x / q)) * q)"

text \<open>
  \<^verbatim>\<open>static_cast<long long>\<close> of a double rounds towards zero. When the result does not
  fit in 64 bits the behaviour is undefined (\<open>None\<close>); compilers for x86-64 then give the
  most negative integer.
\<close>

definition cast_long_long :: "real \<Rightarrow> int option" where
  "cast_long_long x =
     (if - (2 ^ 63) - 1 < x \<and> x < 2 ^ 63 then Some (if 0 \<le> x then \<lfloor>x\<rfloor> else \<lceil>x\<rceil>)
      else None)"

text \<open>
  \<^verbatim>\<open>calculate_backoff_delay\<close>, in milliseconds. The jitter drawn from the uniform
  distribution on 0.8 to 1.2 is the parameter \<open>u\<close>, a double. The base count is converted
  to double, multiplied by the power of two (which is a double as it stands) and then by
  the jitter; the product is cast and capped. From attempt 1024 on the power is infinite,
  the product infinite or not a number, and the cast undefined. Below attempt \<open>- 1022\<close>
  the power is less than \<^verbatim>\<open>2^-1022\<close> and the product is cut to 0. In between, a product
  too large for a double is infinite in the source; in the model it is a real too large
  for the cast all the same.
\<close>

definition calculate_backoff_delay :: "int \<Rightarrow> int \<Rightarrow> int \<Rightarrow> real \<Rightarrow> int option" where
  "calculate_backoff_delay base maxd attempt u =
     (if attempt \<ge> 1024 then None
      else if attempt < - 1022 then Some (min 0 maxd)
      else map_option (\<lambda>delay. min delay maxd)
             (cast_long_long
                (round_double
                   (round_double (round_double (of_int base) * 2 powr of_int attempt) * u))))"

subsection \<open>Shard manager (\<^verbatim>\<open>gateway/shard_manager.cpp\<close>)\<close>

text \<open>
  \<^verbatim>\<open>std::stoull\<close> in base ten: leading white space is skipped, one sign is accepted (a
  minus sign negates in unsigned arithmetic), the longest run of digits is read and the
  rest of the string is ignored. \<open>None\<close> stands for the two exceptions: no digit at all,
  or a value that does not fit in 64 bits.
\<close>

definition is_space :: "char \<Rightarrow> bool" where
  "is_space c = (c \<in> {CHR '' '', CHR 0x09, CHR 0x0A, CHR 0x0B, CHR 0x0C, CHR 0x0D})"

definition is_digit :: "char \<Rightarrow> bool" where
  "is_digit c = (48 \<le> (of_char c :: nat) \<and> (of_char c :: nat) \<le> 57)"

definition digit_value :: "char \<Rightarrow> nat" where
  "digit_value c = of_char c - 48"

definition decimal_value :: "string \<Rightarrow> nat" where
  "decimal_value ds = foldl (\<lambda>a c. 10 * a + digit_value c) 0 ds"

definition stoull :: "string \<Rightarrow> 64 word option" where
  "stoull str =
     (let s1 = dropWhile is_space str;
          neg = (s1 \<noteq> [] \<and> hd s1 = CHR ''-'');
          s2 = (if s1 \<noteq> [] \<and> hd s1 \<in> {CHR ''-'', CHR ''+''} then tl s1 else s1);
          ds = takeWhile is_digit s2
      in if ds = [] then None
         else if decimal_value ds \<ge> 2 ^ 64 then None
         else Some (if neg then - word_of_nat (decimal_value ds)
                    else word_of_nat (decimal_value ds)))"

text \<open>
  \<^verbatim>\<open>get_shard_for_guild\<close>: the shard count is the \<^verbatim>\<open>int\<close> of the configuration, read
  as a signed 32-bit word; the remainder is taken in unsigned 64-bit arithmetic and cast
  back to \<^verbatim>\<open>int\<close>.
\<close>

definition get_shard_for_guild :: "32 word \<Rightarrow> string \<Rightarrow> 32 word" where
  "get_shard_for_guild shard_count guild_id =
     (if sint shard_count \<le> 1 then 0
      else case stoull guild_id of
             None \<Rightarrow> 0
           | Some guild_id_num \<Rightarrow>
               ucast (drop_bit 22 guild_id_num mod (scast shard_count :: 64 word)))"

text \<open>
  The session part of \<^verbatim>\<open>ShardInfo\<close> (field names prefixed with \<open>shard_\<close>) and the
  handlers that write it. The handlers run inside the connection's message handler, which
  catches what they throw: a throw leaves the record as it is at that point.
\<close>

record ShardInfo =
  shard_id :: int
  shard_count :: int
  shard_session_id :: string
  shard_sequence_number :: int
  shard_is_connected :: bool
  shard_is_resumable :: bool
  shard_reconnect_attempts :: int

definition new_ShardInfo :: "int \<Rightarrow> int \<Rightarrow> ShardInfo" where
  "new_ShardInfo sid n =
     \<lparr> shard_id = sid, shard_count = n, shard_session_id = [], shard_sequence_number = 0,
       shard_is_connected = False, shard_is_resumable = False, shard_reconnect_attempts = 0 \<rparr>"

text \<open>\<^verbatim>\<open>j[key]\<close> on a constant value whose key has been checked; a missing key (an assertion
  of the library) reads as null in the model.\<close>

fun at_const :: "json \<Rightarrow> string \<Rightarrow> json" where
  "at_const (JObject kvs) k = (case map_of kvs k of None \<Rightarrow> JNull | Some v \<Rightarrow> v)"
| "at_const _ k = JNull"

definition handle_shard_ready :: "json \<Rightarrow> ShardInfo \<Rightarrow> ShardInfo option" where
  "handle_shard_ready ready_data info =
     (case value_string ready_data ''session_id'' [] of
        None \<Rightarrow> None
      | Some sid \<Rightarrow>
          Some (info\<lparr> shard_session_id := sid, shard_is_resumable := True,
                      shard_sequence_number := 0 \<rparr>))"

definition handle_shard_resume :: "json \<Rightarrow> ShardInfo \<Rightarrow> ShardInfo" where
  "handle_shard_resume resume_data info = info\<lparr> shard_is_resumable := True \<rparr>"

definition handle_shard_event :: "json \<Rightarrow> ShardInfo \<Rightarrow> ShardInfo" where
  "handle_shard_event event info =
     (case (if contains event ''op'' \<and> at_const event ''op'' = JInt 0 \<and> contains event ''s''
            then map_option (\<lambda>s. info\<lparr> shard_sequence_number := s \<rparr>) (value_int event ''s'' 0)
            else Some info) of
        None \<Rightarrow> info
      | Some info1 \<Rightarrow>
          if contains event ''t'' then
            (case get_string (at_const event ''t'') of
               None \<Rightarrow> info1
             | Some event_type \<Rightarrow>
                 if event_type = ''READY'' then
                   (case handle_shard_ready (at_const event ''d'') info1 of
                      None \<Rightarrow> info1
                    | Some info2 \<Rightarrow> info2)
                 else if event_type = ''RESUMED'' then
                   handle_shard_resume (at_const event ''d'') info1
                 else info1)
          else info1)"

text \<open>What \<^verbatim>\<open>identify_all\<close> does to each shard's record.\<close>

definition clear_shard_session :: "ShardInfo \<Rightarrow> ShardInfo" where
  "clear_shard_session info =
     info\<lparr> shard_session_id := [], shard_sequence_number := 0, shard_is_resumable := False \<rparr>"

text \<open>The invariant of the specification on a shard's session record.\<close>

definition session_invariant :: "ShardInfo \<Rightarrow> bool" where
  "session_invariant info =
     (shard_is_resumable info \<longrightarrow> shard_session_id info \<noteq> [] \<and> shard_sequence_number info > 0)"

subsection \<open>TTL cache (\<^verbatim>\<open>cache/cache_manager.cpp\<close>)\<close>

text \<open>
  Instants of the system clock are nanosecond counts since the epoch, as in the 64-bit
  \<^verbatim>\<open>time_point\<close>; \<open>time_point_max\<close> is the expiry instant the constructor gives an entry
  without a lifetime (a persistent one, or one stored with a lifetime of 0). The
  hash map is an association list with distinct keys, iterated in list order.
\<close>

record CacheEntry =
  entry_value :: json
  created_at :: int
  expires_at :: int
  is_persistent :: bool

definition time_point_max :: int where
  "time_point_max = 2 ^ 63 - 1"

definition nanos_per_second :: int where
  "nanos_per_second = 1000000000"

definition is_expired :: "int \<Rightarrow> CacheEntry \<Rightarrow> bool" where
  "is_expired now e = (\<not> is_persistent e \<and> now > expires_at e)"

text \<open>\<^verbatim>\<open>duration_cast<seconds>(t.time_since_epoch()).count()\<close>: integer division that
  rounds towards zero.\<close>

definition to_seconds :: "int \<Rightarrow> int" where
  "to_seconds t = (if t \<ge> 0 then t div nanos_per_second else - ((- t) div nanos_per_second))"

definition of_seconds :: "int \<Rightarrow> int" where
  "of_seconds n = n * nanos_per_second"

definition assign :: "string \<Rightarrow> 'a \<Rightarrow> (string \<times> 'a) list \<Rightarrow> (string \<times> 'a) list" where
  "assign k v al = (if k \<in> fst ` set al then map (\<lambda>(k', v'). if k' = k then (k', v) else (k', v')) al
                    else al @ [(k, v)])"

definition export_entry :: "CacheEntry \<Rightarrow> json" where
  "export_entry e =
     JObject [(''value'', entry_value e),
              (''created_at'', JInt (to_seconds (created_at e))),
              (''expires_at'', JInt (to_seconds (expires_at e))),
              (''is_persistent'', JBool (is_persistent e))]"

text \<open>The \<^verbatim>\<open>config\<close> member of the export holds a floating-point threshold and is never
  read back; it is the parameter \<open>cfg\<close>.\<close>

definition export_entries :: "int \<Rightarrow> (string \<times> CacheEntry) list \<Rightarrow> (string \<times> json) list" where
  "export_entries now cache =
     foldl (\<lambda>acc (key, e). if \<not> is_expired now e then assign key (export_entry e) acc else acc)
       [] cache"

definition export_cache :: "int \<Rightarrow> json \<Rightarrow> (string \<times> CacheEntry) list \<Rightarrow> json" where
  "export_cache now cfg cache =
     JObject [(''entries'', JObject (export_entries now cache)), (''config'', cfg)]"

text \<open>
  Reading one entry back. \<open>Thrown\<close> is a \<^verbatim>\<open>json::exception\<close>, which the import loop
  logs and skips; \<open>Aborted\<close> is the library's assertion on a constant object that lacks
  the \<^verbatim>\<open>value\<close> member. The two instants are read with an \<^verbatim>\<open>int\<close> default, hence as
  32-bit integers.
\<close>

datatype import_result = Imported CacheEntry | Thrown | Aborted

definition import_entry :: "json \<Rightarrow> import_result" where
  "import_entry entry_data =
     (case entry_data of
        JObject kvs \<Rightarrow>
          (case map_of kvs ''value'' of
             None \<Rightarrow> Aborted
           | Some v \<Rightarrow>
               (case value_bool entry_data ''is_persistent'' False of
                  None \<Rightarrow> Thrown
                | Some p \<Rightarrow>
                    (case value_int entry_data ''created_at'' 0 of
                       None \<Rightarrow> Thrown
                     | Some c \<Rightarrow>
                         (case value_int entry_data ''expires_at'' 0 of
                            None \<Rightarrow> Thrown
                          | Some x \<Rightarrow>
                              Imported \<lparr> entry_value = v, created_at = of_seconds c,
                                         expires_at = of_seconds x, is_persistent = p \<rparr>))))
      | _ \<Rightarrow> Thrown)"

text \<open>The key/value pairs \<^verbatim>\<open>items()\<close> iterates over: the members of an object, the
  elements of an array under their decimal indices, nothing for null, and a single pair
  with the empty key for any other value.\<close>

fun items :: "json \<Rightarrow> (string \<times> json) list" where
  "items (JObject kvs) = kvs"
| "items (JArray xs) = zip (map (\<lambda>i. string_of_nat i) [0..<length xs]) xs"
| "items JNull = []"
| "items j = [([], j)]"

fun import_loop ::
  "bool \<Rightarrow> (string \<times> json) list \<Rightarrow> (string \<times> CacheEntry) list \<Rightarrow> (string \<times> CacheEntry) list option" where
  "import_loop overwrite [] cache = Some cache"
| "import_loop overwrite ((key, entry_data) # rest) cache =
     (if key = [] then import_loop overwrite rest cache
      else if \<not> overwrite \<and> key \<in> fst ` set cache then import_loop overwrite rest cache
      else case import_entry entry_data of
             Imported e \<Rightarrow> import_loop overwrite rest (assign key e cache)
           | Thrown \<Rightarrow> import_loop overwrite rest cache
           | Aborted \<Rightarrow> None)"

definition import_cache ::
  "json \<Rightarrow> bool \<Rightarrow> (string \<times> CacheEntry) list \<Rightarrow> (string \<times> CacheEntry) list option" where
  "import_cache data overwrite cache =
     (if \<not> contains data ''entries'' then Some cache
      else import_loop overwrite (items (at_const data ''entries'')) cache)"

text \<open>The entries a reader sees at \<open>now\<close>.\<close>

definition live_entries :: "int \<Rightarrow> (string \<times> CacheEntry) list \<Rightarrow> (string \<times> CacheEntry) list" where
  "live_entries now cache = filter (\<lambda>(k, e). \<not> is_expired now e) cache"

definition fits_int32 :: "int \<Rightarrow> bool" where
  "fits_int32 n = (- (2 ^ 31) \<le> n \<and> n < 2 ^ 31)"

text \<open>What \<open>import_entry\<close> makes of an exported entry.\<close>

definition read_back :: "CacheEntry \<Rightarrow> CacheEntry" where
  "read_back e =
     \<lparr> entry_value = entry_value e,
       created_at = of_seconds (to_int32 (to_seconds (created_at e))),
       expires_at = of_seconds (to_int32 (to_seconds (expires_at e))),
       is_persistent = is_persistent e \<rparr>"

text \<open>
  The relation between an entry and its image after export and import: the same key,
  value and persistent flag, and each instant cut to whole seconds where the count of
  seconds fits in 32 bits.
\<close>

definition read_back_of :: "string \<times> CacheEntry \<Rightarrow> string \<times> CacheEntry \<Rightarrow> bool" where
  "read_back_of original imported =
     (fst imported = fst original
      \<and> entry_value (snd imported) = entry_value (snd original)
      \<and> is_persistent (snd imported) = is_persistent (snd original)
      \<and> (fits_int32 (to_seconds (created_at (snd original))) \<longrightarrow>
           created_at (snd imported) = of_seconds (to_seconds (created_at (snd original))))
      \<and> (fits_int32 (to_seconds (expires_at (snd original))) \<longrightarrow>
           expires_at (snd imported) = of_seconds (to_seconds (expires_at (snd original)))))"


subsection \<open>Event dispatcher (\<^verbatim>\<open>events/event_dispatcher.cpp\<close>)\<close>

text \<open>
  A callback is known by a label and by whether calling it throws; the handler's callback
  is \<open>None\<close> when its \<^verbatim>\<open>std::function\<close> is empty, and calling that throws too. The
  field \<open>handler_id\<close> is the member \<^verbatim>\<open>id\<close>.
\<close>

record EventCallback =
  cb_label :: nat
  cb_throws :: bool

record EventHandlerInfo =
  callback :: "EventCallback option"
  priority :: int
  handler_id :: string
  once :: bool
  registered_at :: int

text \<open>
  \<^verbatim>\<open>std::remove_if\<close> on a vector: the elements that fail the predicate are moved to the
  front in order, the vector keeps its length, and the returned iterator (here an index)
  is the end of the kept part. Behind it an element that satisfies the predicate is still
  what it was, and an element that was moved away is in its moved-from state, which the
  language leaves unspecified: \<open>moved\<close> is a parameter.
\<close>

definition remove_if :: "('a \<Rightarrow> bool) \<Rightarrow> ('a \<Rightarrow> 'a) \<Rightarrow> 'a list \<Rightarrow> 'a list \<times> nat" where
  "remove_if pred moved xs =
     (let kept = filter (\<lambda>x. \<not> pred x) xs;
          m = length kept
      in (kept @ map (\<lambda>x. if pred x then x else moved x) (drop m xs), m))"

text \<open>\<^verbatim>\<open>v.erase(it)\<close> with a single iterator: one element goes; at the end iterator the
  call is undefined (\<open>None\<close>).\<close>

definition erase_at :: "nat \<Rightarrow> 'a list \<Rightarrow> 'a list option" where
  "erase_at m xs = (if m < length xs then Some (take m xs @ drop (Suc m) xs) else None)"

text \<open>
  The dispatcher: the handler table, the middleware chain (each member is known by
  whether it calls its continuation for an event) and the two counters.
\<close>

record EventDispatcher =
  handlers :: "string \<rightharpoonup> EventHandlerInfo list"
  middleware :: "(string \<Rightarrow> json \<Rightarrow> bool) list"
  events_dispatched :: nat
  handlers_executed :: nat

definition new_EventDispatcher :: EventDispatcher where
  "new_EventDispatcher =
     \<lparr> handlers = Map.empty, middleware = [], events_dispatched = 0, handlers_executed = 0 \<rparr>"

text \<open>\<^verbatim>\<open>sort_handlers\<close>: higher priority first, then earlier registration. The source's
  \<^verbatim>\<open>std::sort\<close> may order handlers that compare equal either way; the model keeps them
  in place.\<close>

fun insert_handler :: "EventHandlerInfo \<Rightarrow> EventHandlerInfo list \<Rightarrow> EventHandlerInfo list" where
  "insert_handler h [] = [h]"
| "insert_handler h (x # xs) =
     (if priority x > priority h \<or> (priority x = priority h \<and> registered_at x \<le> registered_at h)
      then x # insert_handler h xs else h # x # xs)"

definition sort_handlers :: "EventHandlerInfo list \<Rightarrow> EventHandlerInfo list" where
  "sort_handlers hs = foldl (\<lambda>acc h. insert_handler h acc) [] hs"

text \<open>\<^verbatim>\<open>on\<close>: \<open>synth\<close> is the id the source makes up from an address when none is given,
  \<open>now\<close> the reading of the clock.\<close>

definition on ::
  "string \<Rightarrow> EventCallback \<Rightarrow> int \<Rightarrow> string \<Rightarrow> bool \<Rightarrow> string \<Rightarrow> int \<Rightarrow> EventDispatcher
     \<Rightarrow> string \<times> EventDispatcher" where
  "on event_name cb prio hid is_once synth now d =
     (let final_handler_id = (if hid = [] then ''handler_'' @ synth else hid);
          info = \<lparr> callback = Some cb, priority = prio, handler_id = final_handler_id,
                   once = is_once, registered_at = now \<rparr>;
          old = (case handlers d event_name of None \<Rightarrow> [] | Some hs \<Rightarrow> hs)
      in (final_handler_id,
          d\<lparr> handlers := (handlers d)(event_name \<mapsto> sort_handlers (old @ [info])) \<rparr>))"

definition off ::
  "(EventHandlerInfo \<Rightarrow> EventHandlerInfo) \<Rightarrow> string \<Rightarrow> string \<Rightarrow> EventDispatcher
     \<Rightarrow> bool \<times> EventDispatcher" where
  "off moved event_name hid d =
     (case handlers d event_name of
        None \<Rightarrow> (False, d)
      | Some hs \<Rightarrow>
          (let (hs1, handler_it) = remove_if (\<lambda>info. handler_id info = hid) moved hs
           in (handler_it \<noteq> length hs1, d\<lparr> handlers := (handlers d)(event_name \<mapsto> hs1) \<rparr>)))"

definition off_all :: "string \<Rightarrow> EventDispatcher \<Rightarrow> nat \<times> EventDispatcher" where
  "off_all event_name d =
     (case handlers d event_name of
        None \<Rightarrow> (0, d)
      | Some hs \<Rightarrow> (length hs, d\<lparr> handlers := (handlers d)(event_name := None) \<rparr>))"

text \<open>
  The handler loop of \<^verbatim>\<open>emit\<close> over the copied list: it returns the labels of the
  callbacks it called, the number that returned, and the one-shot handlers to remove.
\<close>

fun call_handlers :: "EventHandlerInfo list \<Rightarrow> nat list \<times> nat \<times> EventHandlerInfo list" where
  "call_handlers [] = ([], 0, [])"
| "call_handlers (h # hs) =
     (let (called, executed, to_remove) = call_handlers hs in
      case callback h of
        None \<Rightarrow> (called, executed, to_remove)
      | Some cb \<Rightarrow>
          if cb_throws cb then (cb_label cb # called, executed, to_remove)
          else (cb_label cb # called, Suc executed,
                if once h then h # to_remove else to_remove))"

fun remove_once ::
  "(EventHandlerInfo \<Rightarrow> EventHandlerInfo) \<Rightarrow> EventHandlerInfo list \<Rightarrow> EventHandlerInfo list
     \<Rightarrow> EventHandlerInfo list option" where
  "remove_once moved [] handler_list = Some handler_list"
| "remove_once moved (remove_info # rest) handler_list =
     (let (hs1, it) = remove_if (\<lambda>info. handler_id info = handler_id remove_info) moved handler_list
      in case erase_at it hs1 of
           None \<Rightarrow> None
         | Some hs2 \<Rightarrow> remove_once moved rest hs2)"

text \<open>\<^verbatim>\<open>emit\<close>: the result is the new dispatcher with the labels of the callbacks called, in
  order; \<open>None\<close> when the removal of one-shot handlers erases at the end iterator.\<close>

definition emit ::
  "(EventHandlerInfo \<Rightarrow> EventHandlerInfo) \<Rightarrow> string \<Rightarrow> json \<Rightarrow> EventDispatcher
     \<Rightarrow> (EventDispatcher \<times> nat list) option" where
  "emit moved event_name event_data d =
     (let d1 = d\<lparr> events_dispatched := Suc (events_dispatched d) \<rparr> in
      if \<not> list_all (\<lambda>m. m event_name event_data) (middleware d1) then Some (d1, [])
      else case handlers d1 event_name of
             None \<Rightarrow> Some (d1, [])
           | Some hs \<Rightarrow>
               (let (called, executed, to_remove) = call_handlers hs;
                    d2 = d1\<lparr> handlers_executed := handlers_executed d1 + executed \<rparr>
                in if to_remove = [] then Some (d2, called)
                   else case remove_once moved to_remove hs of
                          None \<Rightarrow> None
                        | Some hs1 \<Rightarrow>
                            Some (d2\<lparr> handlers := (handlers d2)(event_name \<mapsto> hs1) \<rparr>, called)))"

text \<open>What the handler table answers for an event: the handlers with a given id, and the
  event's handler count as \<^verbatim>\<open>get_statistics\<close> reports it.\<close>

definition handlers_with_id :: "EventDispatcher \<Rightarrow> string \<Rightarrow> string \<Rightarrow> EventHandlerInfo list" where
  "handlers_with_id d event_name hid =
     (case handlers d event_name of
        None \<Rightarrow> []
      | Some hs \<Rightarrow> filter (\<lambda>info. handler_id info = hid) hs)"

definition handler_count :: "EventDispatcher \<Rightarrow> string \<Rightarrow> nat" where
  "handler_count d event_name = (case handlers d event_name of None \<Rightarrow> 0 | Some hs \<Rightarrow> length hs)"

subsection \<open>Example states\<close>

text \<open>A controller that holds the session \<^verbatim>\<open>abc\<close> at sequence 2 and may resume.\<close>

definition resumable_manager :: ReconnectionManager where
  "resumable_manager =
     new_ReconnectionManager
       \<lparr> session_info := \<lparr> session_id = ''abc'', sequence_number = 2, can_resume = True \<rparr> \<rparr>"

text \<open>A client with one POST in its queue.\<close>

definition example_request :: Request where
  "example_request =
     \<lparr> rq_promise = 0, rq_method = ''POST'',
       rq_url = ''https://discord.com/api/v10/channels/1/messages'',
       rq_data = JObject [(''content'', JString ''hi'')], rq_headers = [] \<rparr>"

definition example_client :: HTTPClient where
  "example_client =
     \<lparr> request_queue = [example_request], running = True, http_token = ''T'',
       completed = [], performed = [] \<rparr>"

text \<open>A limiter whose bucket for \<^verbatim>\<open>/channels\<close> is used up until the instant 2000.\<close>

definition exhausted_bucket :: RateLimitInfo where
  "exhausted_bucket = \<lparr> remaining = 0, limit = 5, reset_time = 2000, global = False \<rparr>"

definition exhausted_limiter :: RateLimiter where
  "exhausted_limiter = update_limits ''/channels'' exhausted_bucket new_RateLimiter"

text \<open>
  Three caches. In the first the entry was stored 0.7 s after a full second with a
  lifetime of one second. In the second all instants are full seconds; its entry
  \<^verbatim>\<open>old\<close> expired in 2020 and its entry \<^verbatim>\<open>settings\<close> is persistent. The third holds an
  entry that is not persistent and never expires.
\<close>

definition example_cache :: "(string \<times> CacheEntry) list" where
  "example_cache =
     [(''user:1'', \<lparr> entry_value = JString ''v'', created_at = 1700000000700000000,
                     expires_at = 1700000001700000000, is_persistent = False \<rparr>)]"

definition mixed_cache :: "(string \<times> CacheEntry) list" where
  "mixed_cache =
     [(''user:1'', \<lparr> entry_value = JString ''v'', created_at = 1700000000000000000,
                     expires_at = 1700003600000000000, is_persistent = False \<rparr>),
      (''old'', \<lparr> entry_value = JNull, created_at = 1600000000000000000,
                  expires_at = 1600003600000000000, is_persistent = False \<rparr>),
      (''settings'', \<lparr> entry_value = JBool True, created_at = 1700000000000000000,
                       expires_at = time_point_max, is_persistent = True \<rparr>)]"

definition unlimited_cache :: "(string \<times> CacheEntry) list" where
  "unlimited_cache =
     [(''motd'', \<lparr> entry_value = JString ''v'', created_at = 1700000000000000000,
                   expires_at = time_point_max, is_persistent = False \<rparr>)]"

text \<open>A dispatcher after \<^verbatim>\<open>on("MESSAGE_CREATE", cb, 0, "h1")\<close>, where \<^verbatim>\<open>cb\<close> is the callback
  with label 7.\<close>

definition example_callback :: EventCallback where
  "example_callback = \<lparr> cb_label = 7, cb_throws = False \<rparr>"

definition one_handler :: EventDispatcher where
  "one_handler =
     snd (on ''MESSAGE_CREATE'' example_callback 0 ''h1'' False ''0'' 0 new_EventDispatcher)"

section \<open>Properties\<close>

subsection \<open>Close codes and the session (C1)\<close>

lemma is_resumable_close_code_range:
  "is_resumable_close_code c \<longleftrightarrow> 1000 \<le> c \<and> c < 2000"
  by (auto simp: is_resumable_close_code_def)

text \<open>
  Claim C1, as the code has it. With auto-reconnect on, \<^verbatim>\<open>handle_disconnect\<close> keeps the
  session identity exactly when the close code lies in the range from 1000 up to, not
  including, 2000 and the session could already resume; on every other code, the codes
  4000 to 4003, 4005 and 4007 to 4009 among them as well as 4004 and 4010 to 4014, it
  clears the session (empty id, sequence 0, no resume). With auto-reconnect off nothing
  changes. Every code from 1000 to 1999 is classified resumable, and no other code is.
\<close>

theorem handle_disconnect_session:
  "session_info (handle_disconnect c r rm) =
     (if \<not> auto_reconnect_enabled rm then session_info rm
      else if 1000 \<le> c \<and> c < 2000 \<and> can_resume (session_info rm) then session_info rm
      else clear_session (session_info rm))
   \<and> (is_resumable_close_code c \<longleftrightarrow> 1000 \<le> c \<and> c < 2000)"
  by (auto simp: handle_disconnect_def is_resumable_close_code_range
      start_reconnect_sequence_def Let_def)

text \<open>Witness for C1: a close with code 1006 keeps the session \<^verbatim>\<open>abc\<close> at sequence 2.\<close>

theorem handle_disconnect_session_witness:
  "session_info (handle_disconnect 1006 ''gone'' resumable_manager) =
     \<lparr> session_id = ''abc'', sequence_number = 2, can_resume = True \<rparr>
   \<and> is_resumable_close_code 1006"
  using handle_disconnect_session [of 1006 "''gone''" resumable_manager]
  by (simp add: resumable_manager_def new_ReconnectionManager_def)

text \<open>
  Counterexample for C1 as stated: the close code 4000 does not preserve the session. The
  controller that held \<^verbatim>\<open>abc\<close> at sequence 2 holds the cleared session afterwards.
\<close>

theorem handle_disconnect_4000_counterexample:
  "session_info (handle_disconnect 4000 ''unknown error'' resumable_manager) =
     \<lparr> session_id = [], sequence_number = 0, can_resume = False \<rparr>
   \<and> session_info (handle_disconnect 4000 ''unknown error'' resumable_manager) \<noteq>
     session_info resumable_manager"
  by (simp add: resumable_manager_def new_ReconnectionManager_def handle_disconnect_def
      is_resumable_close_code_def start_reconnect_sequence_def clear_session_def Let_def)

subsection \<open>Resume on reconnection (C2) and the heartbeat's sequence (C3)\<close>

lemma send_fields [simp]:
  "ws_session_id (send p ws) = ws_session_id ws"
  "last_sequence (send p ws) = last_sequence ws"
  "reconnect_manager (send p ws) = reconnect_manager ws"
  "is_connected (send p ws) = is_connected ws"
  "token (send p ws) = token ws"
  "intents (send p ws) = intents ws"
  by (simp_all add: send_def)

lemma identify_fields [simp]:
  "ws_session_id (identify ws) = ws_session_id ws"
  "last_sequence (identify ws) = last_sequence ws"
  "reconnect_manager (identify ws) = reconnect_manager ws"
  "is_connected (identify ws) = is_connected ws"
  "token (identify ws) = token ws"
  "intents (identify ws) = intents ws"
  by (simp_all add: identify_def)

lemma resume_fields [simp]:
  "ws_session_id (resume ws) = ws_session_id ws"
  "last_sequence (resume ws) = last_sequence ws"
  "reconnect_manager (resume ws) = reconnect_manager ws"
  "is_connected (resume ws) = is_connected ws"
  "token (resume ws) = token ws"
  "intents (resume ws) = intents ws"
  by (simp_all add: resume_def)

lemma attempt_reconnection_fields [simp]:
  "ws_session_id (attempt_reconnection ws) = ws_session_id ws"
  "last_sequence (attempt_reconnection ws) = last_sequence ws"
  "reconnect_manager (attempt_reconnection ws) = reconnect_manager ws"
  by (simp_all add: attempt_reconnection_def reconnect_callback_def resume_callback_def Let_def)

lemma handle_disconnect_no_id:
  "session_id (session_info rm) = [] \<Longrightarrow> session_id (session_info (handle_disconnect c r rm)) = []"
  by (simp add: handle_disconnect_def start_reconnect_sequence_def clear_session_def Let_def)

lemma handle_invalid_session_no_id:
  "session_id (session_info rm) = [] \<Longrightarrow> session_id (session_info (handle_invalid_session b rm)) = []"
  by (simp add: handle_invalid_session_def start_reconnect_sequence_def Let_def)

lemma handle_gateway_op_cases:
  assumes "handle_gateway_op p ws = Some ws1"
  shows "ws1 = ws \<or> (\<exists>i. ws1 = start_heartbeat i ws)
     \<or> (\<exists>b. ws1 = ws\<lparr> reconnect_manager := handle_invalid_session b (reconnect_manager ws) \<rparr>)
     \<or> ws1 = ws\<lparr> reconnect_manager :=
                 handle_disconnect 1000 ''Reconnect requested by Discord'' (reconnect_manager ws) \<rparr>"
  using assms unfolding handle_gateway_op_def
  by (auto split: if_splits option.splits)


lemma handle_gateway_op_fields:
  assumes "handle_gateway_op p ws = Some ws1"
  shows "ws_session_id ws1 = ws_session_id ws \<and> last_sequence ws1 = last_sequence ws \<and>
     (session_id (session_info (reconnect_manager ws)) = [] \<longrightarrow>
        session_id (session_info (reconnect_manager ws1)) = [])"
proof -
  consider (same) "ws1 = ws"
    | (hello) i where "ws1 = start_heartbeat i ws"
    | (invalid) b where
        "ws1 = ws\<lparr> reconnect_manager := handle_invalid_session b (reconnect_manager ws) \<rparr>"
    | (reconnect)
        "ws1 = ws\<lparr> reconnect_manager :=
                 handle_disconnect 1000 ''Reconnect requested by Discord'' (reconnect_manager ws) \<rparr>"
    using handle_gateway_op_cases [OF assms] by blast
  then show ?thesis
  proof cases
    case same
    then show ?thesis by simp
  next
    case hello
    then show ?thesis by (simp add: start_heartbeat_def)
  next
    case invalid
    then show ?thesis by (simp add: handle_invalid_session_no_id)
  next
    case reconnect
    then show ?thesis by (simp add: handle_disconnect_no_id)
  qed
qed


lemma message_handler_fields:
  "ws_session_id (message_handler p ws) = ws_session_id ws"
  "last_sequence (message_handler p ws) = last_sequence ws"
  "session_id (session_info (reconnect_manager ws)) = [] \<Longrightarrow>
     session_id (session_info (reconnect_manager (message_handler p ws))) = []"
proof -
  show "ws_session_id (message_handler p ws) = ws_session_id ws"
    by (cases "handle_gateway_op p ws")
      (simp_all add: message_handler_def handle_gateway_op_fields)
  show "last_sequence (message_handler p ws) = last_sequence ws"
    by (cases "handle_gateway_op p ws")
      (simp_all add: message_handler_def handle_gateway_op_fields)
  show "session_id (session_info (reconnect_manager ws)) = [] \<Longrightarrow>
     session_id (session_info (reconnect_manager (message_handler p ws))) = []"
    by (cases "handle_gateway_op p ws")
      (simp_all add: message_handler_def handle_gateway_op_fields)
qed

lemma reconnect_turn_fields:
  "ws_session_id (reconnect_turn ws) = ws_session_id ws"
  "last_sequence (reconnect_turn ws) = last_sequence ws"
  "session_info (reconnect_manager (reconnect_turn ws)) = session_info (reconnect_manager ws)"
  by (simp_all add: reconnect_turn_def Let_def)

lemma heartbeat_tick_fields:
  "ws_session_id (heartbeat_tick ws) = ws_session_id ws"
  "last_sequence (heartbeat_tick ws) = last_sequence ws"
  "reconnect_manager (heartbeat_tick ws) = reconnect_manager ws"
  by (simp_all add: heartbeat_tick_def)

lemma open_close_fields:
  "ws_session_id (open_handler ws) = ws_session_id ws"
  "last_sequence (open_handler ws) = last_sequence ws"
  "session_info (reconnect_manager (open_handler ws)) = session_info (reconnect_manager ws)"
  "ws_session_id (close_handler c r ws) = ws_session_id ws"
  "last_sequence (close_handler c r ws) = last_sequence ws"
  "reconnect_manager (close_handler c r ws) = handle_disconnect c r (reconnect_manager ws)"
  by (simp_all add: open_handler_def close_handler_def handle_connection_restored_def)

lemmas gateway_fields = message_handler_fields reconnect_turn_fields heartbeat_tick_fields
  open_close_fields

lemma gateway_step_last_sequence: "last_sequence (gateway_step e ws) = last_sequence ws"
  by (cases e) (simp_all add: gateway_fields)

lemma gateway_step_no_session: "no_session ws \<Longrightarrow> no_session (gateway_step e ws)"
  by (cases e)
    (simp_all add: no_session_def gateway_fields handle_disconnect_no_id stop_reconnecting_def)

lemma gateway_run_last_sequence: "last_sequence (gateway_run es ws) = last_sequence ws"
  by (induction es arbitrary: ws) (simp_all add: gateway_step_last_sequence)

lemma gateway_run_no_session: "no_session ws \<Longrightarrow> no_session (gateway_run es ws)"
  by (induction es arbitrary: ws) (simp_all add: gateway_step_no_session)

lemma new_no_session: "no_session (new_WebSocketClient s i)"
  by (simp add: no_session_def new_WebSocketClient_def new_ReconnectionManager_def)

lemma attempt_reconnection_identifies:
  "no_session ws \<Longrightarrow> sent (attempt_reconnection ws) =
     sent ws @ (if is_connected ws then [identify_payload (token ws) (intents ws)] else [])"
  by (simp add: no_session_def attempt_reconnection_def should_resume_def reconnect_callback_def
      identify_def send_def Let_def)

text \<open>In a state where the controller may resume and the connection itself holds a session
  id and is connected, the attempt sends RESUME (once from each callback) and no IDENTIFY.\<close>

lemma attempt_reconnection_resumes:
  assumes "should_resume (reconnect_manager ws)" and "ws_session_id ws \<noteq> []"
    and "is_connected ws"
  shows "sent (attempt_reconnection ws) =
     sent ws @ [resume_payload (token ws) (ws_session_id ws) (last_sequence ws),
                resume_payload (token ws) (ws_session_id ws) (last_sequence ws)]"
  using assms
  by (simp add: attempt_reconnection_def reconnect_callback_def resume_callback_def resume_def
      send_def Let_def)

text \<open>
  No such state is reached, though. From a new connection, whatever happens to it, the session id of the connection and the
  one of its controller stay empty and the last sequence stays what it was: no handler
  writes them. So a reconnection attempt of a reachable connection sends IDENTIFY when the
  connection is connected and nothing otherwise, and never RESUME.
\<close>

lemma reachable_attempt_identifies:
  "sent (attempt_reconnection (gateway_run es (new_WebSocketClient s i))) =
     sent (gateway_run es (new_WebSocketClient s i)) @
       (if is_connected (gateway_run es (new_WebSocketClient s i))
        then [identify_payload (token (gateway_run es (new_WebSocketClient s i)))
                (intents (gateway_run es (new_WebSocketClient s i)))] else [])"
  by (rule attempt_reconnection_identifies) (rule gateway_run_no_session, rule new_no_session)

text \<open>
  Claim C2 on the run of scenario S1: the connection opens, receives HELLO, identifies,
  receives READY with session \<^verbatim>\<open>abc\<close> at sequence 1 and a message at sequence 2. When the
  gateway then asks for a reconnect (opcode 7), the reconnection attempt sends a second
  IDENTIFY; when the transport drops with code 1006 instead, the attempt sends nothing.
  In neither run is a RESUME sent.
\<close>

theorem reconnect_after_ready_identifies:
  "sent (gateway_run
      [SetToken ''T'', Opened, Message (hello_payload 45000), Identify,
       Message (dispatch_payload ''READY'' 1 (JObject [(''session_id'', JString ''abc'')])),
       Message (dispatch_payload ''MESSAGE_CREATE'' 2 JNull),
       Message reconnect_payload, ReconnectTurn]
      (new_WebSocketClient seq0 i0)) = [identify_payload ''T'' i0, identify_payload ''T'' i0]
   \<and> sent (gateway_run
      [SetToken ''T'', Opened, Message (hello_payload 45000), Identify,
       Message (dispatch_payload ''READY'' 1 (JObject [(''session_id'', JString ''abc'')])),
       Message (dispatch_payload ''MESSAGE_CREATE'' 2 JNull),
       Closed 1006 ''gone'', ReconnectTurn]
      (new_WebSocketClient seq0 i0)) = [identify_payload ''T'' i0]"
  by code_simp

text \<open>
  Claim C3 on a run: the connection opens, receives HELLO and a DISPATCH with sequence
  \<open>s\<close>; the heartbeat sent next carries the value \<open>seq0\<close> that the member had before any
  payload arrived, not \<open>s\<close>.
\<close>

theorem heartbeat_after_dispatch_carries_initial:
  "sent (gateway_run
      [Opened, Message (hello_payload 45000),
       Message (dispatch_payload ''MESSAGE_CREATE'' s JNull), HeartbeatTick]
      (new_WebSocketClient seq0 i0)) = [heartbeat_payload seq0]"
  by code_simp

subsection \<open>A 429 response (C4)\<close>

lemma to_string_429: "to_string 429 = ''429''"
  by code_simp

text \<open>
  Claim C4, as the code has it. When the transport answers the request at the head of the
  queue with status 429, the worker calls the transport once for it, takes it off the
  queue and fails its future with the generic runtime error whose text is
  \<^verbatim>\<open>HTTP error 429\<close>, followed by the body's \<^verbatim>\<open>message\<close> member when there is one. The
  header block is not read; no retry-after is derived and nothing is retried.
\<close>

theorem worker_step_429:
  assumes "running hc" and "request_queue hc = rq # rest"
    and "transport (curl_call (http_token hc) rq) = Response 429 body hdr"
  shows "worker_step transport parse hc =
     hc\<lparr> request_queue := rest,
         completed := completed hc @
           [(rq_promise rq, Inl (RuntimeError (''HTTP error 429'' @ error_detail parse body)))],
         performed := performed hc @ [rq_promise rq] \<rparr>"
  using assms by (simp add: worker_step_def perform_request_def to_string_429)

text \<open>Witness for C4: the example client against a transport that answers 429.\<close>

theorem worker_step_429_witness:
  "worker_step (\<lambda>c. Response 429 [] ''Retry-After: 5'') (\<lambda>b. None) example_client =
     example_client\<lparr> request_queue := [],
         completed := [(0, Inl (RuntimeError ''HTTP error 429''))],
         performed := [0] \<rparr>"
  using worker_step_429 [of example_client example_request "[]"
      "\<lambda>c. Response 429 [] ''Retry-After: 5''" "[]" "''Retry-After: 5''" "\<lambda>b. None"]
  by (simp add: example_client_def example_request_def error_detail_def)

text \<open>
  Counterexample for C4 as stated: two 429 responses that ask for different waits fail the
  future with one and the same error, which carries no retry-after.
\<close>

theorem worker_step_429_counterexample:
  "completed (worker_step (\<lambda>c. Response 429 [] ''Retry-After: 1'') (\<lambda>b. None) example_client)
     = [(0, Inl (RuntimeError ''HTTP error 429''))]
   \<and> completed (worker_step (\<lambda>c. Response 429 [] ''Retry-After: 5'') (\<lambda>b. None) example_client)
     = [(0, Inl (RuntimeError ''HTTP error 429''))]"
  by code_simp

subsection \<open>Rate-limit buckets (C5)\<close>

text \<open>
  Claim C5, as the code has it. An update stores the bucket as it is given, so the stored
  remaining count is the supplied one (the default, \<open>- 1\<close>, stands for unknown). While a
  bucket holds remaining 0 with reset instant \<open>t\<close>, a probe before \<open>t\<close> answers false; a
  probe at or after \<open>t\<close> answers true when the global window has passed and the local
  window is not full.
\<close>

theorem update_limits_can_make_request:
  "rate_limits (update_limits ep info rl) ep = Some info
   \<and> (rate_limits rl ep = Some b \<and> remaining b = 0 \<and> now < reset_time b
        \<longrightarrow> \<not> fst (can_make_request ep now rl))
   \<and> (rate_limits rl ep = Some b \<and> remaining b = 0 \<and> reset_time b \<le> now
        \<and> global_reset_time rl \<le> now \<and> \<not> window_saturated ep now rl
        \<longrightarrow> fst (can_make_request ep now rl))"
  by (auto simp: update_limits_def can_make_request_def Let_def)

text \<open>Witness for C5: the used-up bucket refuses at 1999 and admits at 2000.\<close>

theorem update_limits_can_make_request_witness:
  "rate_limits exhausted_limiter ''/channels'' = Some exhausted_bucket
   \<and> remaining exhausted_bucket = 0 \<and> reset_time exhausted_bucket = 2000
   \<and> \<not> fst (can_make_request ''/channels'' 1999 exhausted_limiter)
   \<and> fst (can_make_request ''/channels'' 2000 exhausted_limiter)"
  using update_limits_can_make_request
      [of "''/channels''" exhausted_bucket exhausted_limiter exhausted_bucket 1999]
    update_limits_can_make_request
      [of "''/channels''" exhausted_bucket exhausted_limiter exhausted_bucket 2000]
  by (simp add: exhausted_limiter_def exhausted_bucket_def new_RateLimiter_def update_limits_def
      window_saturated_def cleanup_old_requests_def)

text \<open>Counterexample for C5 as stated: after an update with the default bucket the stored
  remaining count is negative.\<close>

theorem update_limits_negative_counterexample:
  "rate_limits (update_limits ''/channels'' default_RateLimitInfo new_RateLimiter) ''/channels''
     = Some default_RateLimitInfo
   \<and> remaining default_RateLimitInfo < 0"
  by (simp add: update_limits_def default_RateLimitInfo_def)

subsection \<open>Backoff delay (C6)\<close>

text \<open>Rounding to double does not step over a number that a double of the same or a
  smaller exponent can hold; so numbers with at most 53 significant bits are left as they
  are.\<close>

lemma round_half_even_ge: "of_int n \<le> t \<Longrightarrow> n \<le> round_half_even t"
proof -
  assume "of_int n \<le> t"
  then have "n \<le> \<lfloor>t\<rfloor>" by (simp add: le_floor_iff)
  moreover have "\<lfloor>t\<rfloor> \<le> round_half_even t" by (simp add: round_half_even_def Let_def)
  ultimately show ?thesis by simp
qed

lemma round_half_even_le: "t \<le> of_int n \<Longrightarrow> round_half_even t \<le> n"
proof -
  assume a: "t \<le> of_int n"
  show ?thesis
  proof (cases "t = of_int \<lfloor>t\<rfloor>")
    case True
    then have "round_half_even t = \<lfloor>t\<rfloor>" by (simp add: round_half_even_def Let_def)
    moreover have "\<lfloor>t\<rfloor> \<le> n" using a by (simp add: floor_le_iff)
    ultimately show ?thesis by simp
  next
    case False
    then have "of_int \<lfloor>t\<rfloor> < t" using of_int_floor_le [of t] by linarith
    then have "of_int \<lfloor>t\<rfloor> < (of_int n :: real)" using a by linarith
    then have "\<lfloor>t\<rfloor> < n" by simp
    then show ?thesis by (auto simp: round_half_even_def Let_def)
  qed
qed

lemma grid_point:
  assumes "e \<le> j"
  shows "(of_int n :: real) * 2 powr of_int j = of_int (n * 2 ^ nat (j - e)) * 2 powr of_int e"
proof -
  have "(2::real) powr of_int j = 2 powr (of_int (j - e) + of_int e)" by simp
  also have "\<dots> = 2 powr of_int (j - e) * 2 powr of_int e" by (simp only: powr_add)
  also have "(2::real) powr of_int (j - e) = 2 ^ nat (j - e)"
    using assms powr_realpow [of 2 "nat (j - e)"] by simp
  finally show ?thesis by simp
qed

lemma exponent_le:
  assumes "0 < x" and "x < 2 powr (53 + of_int j)"
  shows "\<lfloor>log 2 \<bar>x\<bar>\<rfloor> - 52 \<le> j"
proof -
  have "log 2 x < 53 + of_int j" using assms by (simp add: log_less_iff)
  then have "\<lfloor>log 2 x\<rfloor> < 53 + j" by (simp add: floor_less_iff)
  then show ?thesis using assms(1) by simp
qed

lemma round_double_ge:
  assumes "0 < x" and "x < 2 powr (53 + of_int j)" and "of_int n * 2 powr of_int j \<le> x"
  shows "of_int n * 2 powr of_int j \<le> round_double x"
proof -
  define e where "e = \<lfloor>log 2 \<bar>x\<bar>\<rfloor> - 52"
  define q :: real where "q = 2 powr of_int e"
  have e: "e \<le> j" unfolding e_def using assms(1,2) by (rule exponent_le)
  have q: "0 < q" by (simp add: q_def)
  have g: "of_int n * 2 powr of_int j = of_int (n * 2 ^ nat (j - e)) * q"
    unfolding q_def using e by (rule grid_point)
  have "of_int (n * 2 ^ nat (j - e)) \<le> x / q"
    using assms(3) q unfolding g by (simp add: pos_le_divide_eq)
  then have "n * 2 ^ nat (j - e) \<le> round_half_even (x / q)" by (rule round_half_even_ge)
  then have "(of_int (n * 2 ^ nat (j - e)) :: real) \<le> of_int (round_half_even (x / q))"
    by (simp only: of_int_le_iff)
  then have "of_int (n * 2 ^ nat (j - e)) * q \<le> of_int (round_half_even (x / q)) * q"
    using q by (simp only: mult_le_cancel_right_pos)
  moreover have "round_double x = of_int (round_half_even (x / q)) * q"
    using assms(1) by (simp add: round_double_def Let_def e_def q_def)
  ultimately show ?thesis unfolding g by simp
qed

lemma round_double_le:
  assumes "0 < x" and "x < 2 powr (53 + of_int j)" and "x \<le> of_int n * 2 powr of_int j"
  shows "round_double x \<le> of_int n * 2 powr of_int j"
proof -
  define e where "e = \<lfloor>log 2 \<bar>x\<bar>\<rfloor> - 52"
  define q :: real where "q = 2 powr of_int e"
  have e: "e \<le> j" unfolding e_def using assms(1,2) by (rule exponent_le)
  have q: "0 < q" by (simp add: q_def)
  have g: "of_int n * 2 powr of_int j = of_int (n * 2 ^ nat (j - e)) * q"
    unfolding q_def using e by (rule grid_point)
  have "x / q \<le> of_int (n * 2 ^ nat (j - e))"
    using assms(3) q unfolding g by (simp add: pos_divide_le_eq)
  then have "round_half_even (x / q) \<le> n * 2 ^ nat (j - e)" by (rule round_half_even_le)
  then have "(of_int (round_half_even (x / q)) :: real) \<le> of_int (n * 2 ^ nat (j - e))"
    by (simp only: of_int_le_iff)
  then have "of_int (round_half_even (x / q)) * q \<le> of_int (n * 2 ^ nat (j - e)) * q"
    using q by (simp only: mult_le_cancel_right_pos)
  moreover have "round_double x = of_int (round_half_even (x / q)) * q"
    using assms(1) by (simp add: round_double_def Let_def e_def q_def)
  ultimately show ?thesis unfolding g by simp
qed

lemma round_double_exact:
  assumes "0 < n" and "n < 2 ^ 53"
  shows "round_double (of_int n * 2 powr of_int j) = of_int n * 2 powr of_int j"
proof -
  let ?x = "of_int n * 2 powr of_int j :: real"
  have pos: "0 < ?x" using assms(1) by simp
  have "(of_int n :: real) < 2 ^ 53" using assms(2) by (metis of_int_less_iff of_int_numeral of_int_power)
  then have "?x < 2 ^ 53 * 2 powr of_int j" by simp
  also have "\<dots> = 2 powr (53 + of_int j)" by (simp add: powr_add)
  finally have lt: "?x < 2 powr (53 + of_int j)" .
  have "?x \<le> round_double ?x" using pos lt by (rule round_double_ge) simp
  moreover have "round_double ?x \<le> ?x" using pos lt by (rule round_double_le) simp
  ultimately show ?thesis by simp
qed

lemma round_double_int:
  assumes "0 \<le> n" and "n < 2 ^ 53"
  shows "round_double (of_int n) = of_int n"
proof (cases "n = 0")
  case True
  then show ?thesis by (simp add: round_double_def)
next
  case False
  then have "0 < n" using assms(1) by simp
  from round_double_exact [OF this assms(2), of 0] show ?thesis by simp
qed


lemma cast_long_long_nonneg:
  "0 \<le> x \<Longrightarrow> x < 2 ^ 63 \<Longrightarrow> cast_long_long x = Some \<lfloor>x\<rfloor>"
  by (simp add: cast_long_long_def)

lemma round_double_between:
  assumes "0 \<le> x" and "x < 2 ^ 53" and "of_int l \<le> x" and "x \<le> of_int h"
  shows "of_int l \<le> round_double x \<and> round_double x \<le> of_int h"
proof (cases "x = 0")
  case True
  then show ?thesis using assms(3,4) by (simp add: round_double_def)
next
  case False
  then have pos: "0 < x" using assms(1) by simp
  have lt: "x < 2 powr (53 + of_int 0)" using assms(2) by simp
  have "of_int l * 2 powr of_int 0 \<le> round_double x"
    using pos lt by (rule round_double_ge) (simp add: assms(3))
  moreover have "round_double x \<le> of_int h * 2 powr of_int 0"
    using pos lt by (rule round_double_le) (simp add: assms(4))
  ultimately show ?thesis by simp
qed

text \<open>
  Claim C6, as the code has it. For an attempt \<open>k\<close> from 0 to 52, a base delay that is not
  negative with \<open>base \<cdot> 2\<^sup>k\<close> at most \<^verbatim>\<open>2^52\<close> ms and a jitter \<open>u\<close> between 0.8 and 1.2, the
  delay is defined; it is the double-precision product \<open>base \<cdot> 2\<^sup>k \<cdot> u\<close> cut to whole
  milliseconds and then capped at the maximum delay. It is at least the smaller of the
  maximum delay and \<open>0.8 \<cdot> base \<cdot> 2\<^sup>k\<close> rounded down, and at most the smaller of the
  maximum delay and \<open>1.2 \<cdot> base \<cdot> 2\<^sup>k\<close> rounded up.
\<close>

theorem calculate_backoff_delay_bounds:
  assumes "0 \<le> base" and "0 \<le> k" and "k \<le> 52" and "base * 2 ^ nat k \<le> 2 ^ 52"
    and "0.8 \<le> u" and "u \<le> 1.2"
  shows "\<exists>delay. calculate_backoff_delay base maxd k u = Some delay
    \<and> delay = min \<lfloor>round_double (real_of_int (base * 2 ^ nat k) * u)\<rfloor> maxd
    \<and> min \<lfloor>0.8 * real_of_int (base * 2 ^ nat k)\<rfloor> maxd \<le> delay
    \<and> delay \<le> min \<lceil>1.2 * real_of_int (base * 2 ^ nat k)\<rceil> maxd"
proof -
  define m where "m = base * 2 ^ nat k"
  define x :: real where "x = of_int m * u"
  have m0: "0 \<le> m" using assms(1) by (simp add: m_def)
  have m52: "m \<le> 2 ^ 52" using assms(4) by (simp add: m_def)
  have "base * 1 \<le> base * 2 ^ nat k" using assms(1) by (intro mult_left_mono) simp_all
  then have "base \<le> 2 ^ 52" using assms(4) by simp
  then have b: "round_double (of_int base) = of_int base"
    using assms(1) by (intro round_double_int) simp_all
  have p: "(2::real) powr of_int k = 2 ^ nat k"
    using assms(2) powr_realpow [of 2 "nat k"] by simp
  have mm: "round_double (of_int m) = of_int m"
    using m0 m52 by (intro round_double_int) simp_all
  have prod: "round_double (round_double (of_int base) * 2 powr of_int k) = of_int m"
    unfolding b p using mm by (simp add: m_def)
  have mr: "(of_int m :: real) \<le> 2 ^ 52" using m52 by (metis of_int_le_iff of_int_numeral of_int_power)
  have mr0: "(0::real) \<le> of_int m" using m0 by simp
  have x0: "0 \<le> x" unfolding x_def using mr0 assms(5) by simp
  have lo: "0.8 * of_int m \<le> x"
    unfolding x_def using mult_left_mono [OF assms(5) mr0] by (simp add: mult.commute)
  have hi: "x \<le> 1.2 * of_int m"
    unfolding x_def using mult_left_mono [OF assms(6) mr0] by (simp add: mult.commute)
  have x53: "x < 2 ^ 53" using hi mr by simp
  have l: "of_int \<lfloor>0.8 * of_int m :: real\<rfloor> \<le> x" using lo of_int_floor_le [of "0.8 * of_int m :: real"] by linarith
  have h: "x \<le> of_int \<lceil>1.2 * of_int m :: real\<rceil>" using hi le_of_int_ceiling [of "1.2 * of_int m :: real"] by linarith
  from round_double_between [OF x0 x53 l h]
  have rl: "of_int \<lfloor>0.8 * of_int m :: real\<rfloor> \<le> round_double x"
    and rh: "round_double x \<le> of_int \<lceil>1.2 * of_int m :: real\<rceil>" by simp_all
  have fl0: "(0::int) \<le> \<lfloor>0.8 * of_int m :: real\<rfloor>" using mr0 by simp
  then have r0: "0 \<le> round_double x" using rl by linarith
  have "\<lceil>1.2 * of_int m :: real\<rceil> \<le> 2 ^ 53"
    using mr by (simp add: ceiling_le_iff)
  then have c53: "(of_int \<lceil>1.2 * of_int m :: real\<rceil> :: real) \<le> 2 ^ 53"
    by (metis of_int_le_iff of_int_numeral of_int_power)
  have "(2::real) ^ 53 < 2 ^ 63" by simp
  with rh c53 have r63: "round_double x < 2 ^ 63" by linarith
  have cast: "cast_long_long (round_double x) = Some \<lfloor>round_double x\<rfloor>"
    using r0 r63 by (rule cast_long_long_nonneg)
  have val: "calculate_backoff_delay base maxd k u = Some (min \<lfloor>round_double x\<rfloor> maxd)"
    using assms(2,3) cast prod by (simp add: calculate_backoff_delay_def x_def)
  have fl: "\<lfloor>0.8 * of_int m :: real\<rfloor> \<le> \<lfloor>round_double x\<rfloor>" using rl by (simp add: le_floor_iff)
  have ce: "\<lfloor>round_double x\<rfloor> \<le> \<lceil>1.2 * of_int m :: real\<rceil>" using rh by (simp add: floor_le_iff)
  have lower: "min \<lfloor>0.8 * of_int m :: real\<rfloor> maxd \<le> min \<lfloor>round_double x\<rfloor> maxd"
    using fl by (simp add: min_def)
  have upper: "min \<lfloor>round_double x\<rfloor> maxd \<le> min \<lceil>1.2 * of_int m :: real\<rceil> maxd"
    using ce by (simp add: min_def)
  show ?thesis
    using val lower upper unfolding x_def m_def by blast
qed


text \<open>Witness for C6: the default delays, third attempt, no jitter.\<close>

theorem calculate_backoff_delay_bounds_witness:
  "\<exists>delay. calculate_backoff_delay 1000 30000 2 1 = Some delay \<and> 3200 \<le> delay \<and> delay \<le> 4800"
  using calculate_backoff_delay_bounds [of 1000 2 1 30000] by auto


lemma round_double_1000: "round_double 1000 = 1000"
  using round_double_int [of 1000] by simp

lemma round_double_64000: "round_double 64000 = 64000"
  using round_double_int [of 64000] by simp

lemma round_double_812_5: "round_double (1625 / 2) = 1625 / 2"
  using round_double_exact [of 1625 "- 1"] by (simp add: powr_minus)

text \<open>Beyond 53 bits rounding shows: the odd number after \<^verbatim>\<open>2^53\<close> lies half-way between
  two doubles and goes to the even one.\<close>

lemma floor_log2:
  assumes "2 ^ n \<le> x" and "x < 2 ^ Suc n"
  shows "\<lfloor>log 2 x\<rfloor> = int n"
proof -
  have pos: "0 < x" using assms(1) by (rule less_le_trans [rotated]) simp
  have "real n \<le> log 2 x"
    using pos assms(1) by (simp add: le_log_iff powr_realpow)
  moreover have "log 2 x < real n + 1"
    using pos assms(2) powr_realpow [of 2 "Suc n"] by (simp add: log_less_iff add.commute)
  ultimately show ?thesis by (simp add: floor_eq_iff)
qed

lemma round_double_tie: "round_double 9007199254740993 = 9007199254740992"
proof -
  have "\<lfloor>log 2 (9007199254740993::real)\<rfloor> = int 53"
    by (rule floor_log2) simp_all
  then have e: "\<lfloor>log 2 \<bar>9007199254740993::real\<bar>\<rfloor> - 52 = 1" by simp
  have r: "round_half_even (9007199254740993 / 2) = 4503599627370496"
  proof -
    have f: "\<lfloor>9007199254740993 / 2 :: real\<rfloor> = 4503599627370496" by (simp add: floor_eq_iff)
    show ?thesis unfolding round_half_even_def f by (simp add: Let_def)
  qed
  show ?thesis
    unfolding round_double_def e using r by (simp add: Let_def)
qed

lemma calculate_backoff_delay_tie: "calculate_backoff_delay 9007199254740993 (2 ^ 62) 0 1 = Some 9007199254740992"
proof -
  have e: "round_double 9007199254740992 = 9007199254740992"
    using round_double_exact [of 1 53] powr_realpow [of 2 53] by simp
  show ?thesis
    by (simp add: calculate_backoff_delay_def round_double_tie e cast_long_long_def)
qed


text \<open>At attempt 54 with the default base delay the product is beyond the 64-bit range and
  no delay is defined.\<close>

lemma calculate_backoff_delay_overflow: "calculate_backoff_delay 1000 30000 54 1 = None"
proof -
  have p: "(2::real) powr 54 = 2 ^ 54" using powr_realpow [of 2 54] by simp
  have e: "round_double 18014398509481984000 = 18014398509481984000"
    using round_double_exact [of 1000 54] by (simp add: p)
  show ?thesis
    by (simp add: calculate_backoff_delay_def round_double_1000 p e cast_long_long_def)
qed

text \<open>
  Counterexample for C6 as stated. With the default delays of 1000 and 30000 ms: at
  attempt 0 with jitter 13/16 the delay is 812 ms, not the 812.5 of the formula; at
  attempt 6 (possible once the retry limit is set to 7 or more) with jitter 1 the delay
  is the cap of 30000 ms, below the claimed lower bound of 51200; at attempt 54 (retry
  limit 55 or more) with jitter 1 the cast is out of range and no delay is defined. With
  a base delay of \<^verbatim>\<open>2^53 + 1\<close> ms and a maximum of \<^verbatim>\<open>2^62\<close> ms, at attempt 0 with jitter 1
  the delay is \<^verbatim>\<open>2^53\<close> ms, not the base delay. Every input of these runs is a double as
  it stands.
\<close>

theorem calculate_backoff_delay_counterexample:
  "calculate_backoff_delay 1000 30000 0 (13 / 16) = Some 812
   \<and> real_of_int 812 \<noteq> min 30000 (1000 * 2 ^ 0 * (13 / 16))
   \<and> calculate_backoff_delay 1000 30000 6 1 = Some 30000
   \<and> real_of_int 30000 < 0.8 * 1000 * 2 ^ 6
   \<and> calculate_backoff_delay 1000 30000 54 1 = None
   \<and> calculate_backoff_delay 9007199254740993 (2 ^ 62) 0 1 = Some 9007199254740992
   \<and> real_of_int 9007199254740992 \<noteq> min (2 ^ 62) (9007199254740993 * 2 ^ 0 * 1)"
proof -
  have p6: "(2::real) powr 6 = 64" using powr_realpow [of 2 6] by simp
  have a: "calculate_backoff_delay 1000 30000 0 (13 / 16) = Some 812"
    by (simp add: calculate_backoff_delay_def round_double_1000 round_double_812_5 cast_long_long_def)
  have b: "calculate_backoff_delay 1000 30000 6 1 = Some 30000"
    by (simp add: calculate_backoff_delay_def round_double_1000 round_double_64000 p6 cast_long_long_def)
  show ?thesis
    using a b calculate_backoff_delay_overflow calculate_backoff_delay_tie by simp
qed

subsection \<open>The shard of a guild (C7)\<close>

lemma decimal_value_example: "decimal_value ''613425648685547541'' = 613425648685547541"
  by (simp add: decimal_value_def digit_value_def)

lemma stoull_example: "stoull ''613425648685547541'' = Some 613425648685547541"
  by (simp add: stoull_def is_space_def is_digit_def Let_def decimal_value_example)

lemma scast_shard_count:
  fixes n :: "32 word"
  assumes "0 < sint n"
  shows "uint (scast n :: 64 word) = sint n"
proof -
  have "sint n < 2 ^ 31" using sint_lt [of n] by simp
  then have lt: "sint n < 2 ^ 64" by simp
  have "(scast n :: 64 word) = word_of_int (sint n)" by simp
  then have "uint (scast n :: 64 word) = take_bit 64 (sint n)"
    by (simp only: uint_word_of_int_eq) simp
  also have "\<dots> = sint n"
    using assms lt by (simp add: take_bit_int_eq_self)
  finally show ?thesis .
qed

text \<open>
  Claim C7, as the code has it. For a shard count \<open>n > 0\<close> and a guild id string that
  \<^verbatim>\<open>std::stoull\<close> reads as \<open>g\<close>, the shard is \<open>(g >> 22) mod n\<close>; with four shards the
  guild 613425648685547541 belongs to shard 0.
\<close>

theorem get_shard_for_guild_formula:
  fixes n :: "32 word" and g :: "64 word"
  assumes "0 < sint n" and "stoull guild_id = Some g"
  shows "sint (get_shard_for_guild n guild_id) = (uint g div 2 ^ 22) mod sint n
    \<and> sint (get_shard_for_guild 4 ''613425648685547541'') = 0"
proof (cases "sint n \<le> 1")
  case True
  then have "sint n = 1" using assms(1) by simp
  then show ?thesis by (simp add: get_shard_for_guild_def stoull_example drop_bit_eq_div)
next
  case False
  let ?r = "drop_bit 22 g mod (scast n :: 64 word)"
  have d: "uint (drop_bit 22 g) = uint g div 2 ^ 22"
    by (simp add: drop_bit_eq_div uint_div_distrib)
  have u: "uint ?r = (uint g div 2 ^ 22) mod sint n"
    using assms(1) by (simp only: uint_mod_distrib scast_shard_count d)
  have lt: "sint n < 2 ^ 31" using sint_lt [of n] by simp
  have "uint ?r < sint n" unfolding u using assms(1) by simp
  then have small: "uint ?r < 2 ^ 31" using lt by linarith
  have "sint (ucast ?r :: 32 word) = signed_take_bit 31 (uint ?r)"
    by (simp only: signed_ucast_eq) simp
  also have "\<dots> = uint ?r"
  proof (rule signed_take_bit_int_eq_self)
    have "- (2 ^ 31) \<le> (0::int)" by simp
    also have "0 \<le> uint ?r" by simp
    finally show "- (2 ^ 31) \<le> uint ?r" .
    show "uint ?r < 2 ^ 31" by (rule small)
  qed
  finally have "sint (ucast ?r :: 32 word) = uint ?r" .
  then have "sint (get_shard_for_guild n guild_id) = (uint g div 2 ^ 22) mod sint n"
    using False assms(2) u by (simp add: get_shard_for_guild_def)
  then show ?thesis by (simp add: get_shard_for_guild_def stoull_example drop_bit_eq_div)
qed

text \<open>Witness for C7: the guild and shard count of scenario S4.\<close>

theorem get_shard_for_guild_formula_witness:
  "(0::int) < sint (4 :: 32 word)
   \<and> stoull ''613425648685547541'' = Some 613425648685547541
   \<and> sint (get_shard_for_guild 4 ''613425648685547541'')
       = (uint (613425648685547541 :: 64 word) div 2 ^ 22) mod sint (4 :: 32 word)"
  using get_shard_for_guild_formula [of 4 "''613425648685547541''" 613425648685547541]
  by (simp add: stoull_example)

text \<open>Counterexample for C7 as stated: with four shards the guild 613425648685547541 is
  given shard 0, not shard 1.\<close>

theorem get_shard_for_guild_counterexample:
  "get_shard_for_guild 4 ''613425648685547541'' = 0
   \<and> get_shard_for_guild 4 ''613425648685547541'' \<noteq> 1"
  by (simp add: get_shard_for_guild_def stoull_example drop_bit_eq_div)

subsection \<open>The session record of a shard (C8)\<close>

text \<open>A dispatch here is a payload with opcode 0, a type \<open>t\<close>, an integer sequence \<open>s\<close>
  and data \<open>d\<close>; \<open>to_int32 s\<close> is the sequence as \<^verbatim>\<open>value("s", 0)\<close> reads it.\<close>

lemma ready_dispatch_effect:
  assumes "value_string d ''session_id'' [] = Some sid"
  shows "handle_shard_event (dispatch_payload ''READY'' n d) info =
      info\<lparr> shard_session_id := sid, shard_is_resumable := True, shard_sequence_number := 0 \<rparr>"
  using assms by (simp add: handle_shard_event_def dispatch_payload_def handle_shard_ready_def)

lemma dispatch_effect:
  assumes "t \<noteq> ''READY''"
  shows "shard_sequence_number (handle_shard_event (dispatch_payload t s d) info) = to_int32 s
    \<and> shard_session_id (handle_shard_event (dispatch_payload t s d) info) = shard_session_id info
    \<and> (shard_is_resumable info \<longrightarrow> shard_is_resumable (handle_shard_event (dispatch_payload t s d) info))"
  using assms by (simp add: handle_shard_event_def dispatch_payload_def handle_shard_resume_def)

lemma ready_dispatch_throws:
  assumes "value_string d ''session_id'' [] = None"
  shows "handle_shard_event (dispatch_payload ''READY'' n d) info =
      info\<lparr> shard_sequence_number := to_int32 n \<rparr>"
  using assms by (simp add: handle_shard_event_def dispatch_payload_def handle_shard_ready_def)

lemma to_int32_small: "to_int32 1 = 1" "to_int32 2 = 2"
  by (simp_all add: to_int32_def signed_take_bit_eq_take_bit_minus)

text \<open>
  Claim C8, as the code has it. After a READY dispatch whose data are an object with a
  string session id \<open>sid\<close> (empty when the member is absent) the record is resumable, holds
  \<open>sid\<close> and has its last sequence cleared to 0, so the invariant of the specification does
  not hold in that state; when \<open>sid\<close> is not empty, the invariant holds after the next
  dispatch of another type than READY exactly when that dispatch's sequence, read as a
  32-bit integer, is positive. After a READY dispatch whose data are not an object, or
  whose session id is not a string, the record has its last sequence set from the
  dispatch and is otherwise unchanged.
\<close>

theorem handle_shard_event_ready_state:
  "(value_string d ''session_id'' [] = Some sid \<longrightarrow>
      handle_shard_event (dispatch_payload ''READY'' n d) info =
        info\<lparr> shard_session_id := sid, shard_is_resumable := True, shard_sequence_number := 0 \<rparr>
      \<and> \<not> session_invariant (handle_shard_event (dispatch_payload ''READY'' n d) info)
      \<and> (sid \<noteq> [] \<and> t \<noteq> ''READY'' \<longrightarrow>
           session_invariant (handle_shard_event (dispatch_payload t s d')
             (handle_shard_event (dispatch_payload ''READY'' n d) info)) = (0 < to_int32 s)))
   \<and> (value_string d ''session_id'' [] = None \<longrightarrow>
      handle_shard_event (dispatch_payload ''READY'' n d) info =
        info\<lparr> shard_sequence_number := to_int32 n \<rparr>)"
proof (intro conjI impI)
  let ?r = "handle_shard_event (dispatch_payload ''READY'' n d) info"
  {
    assume a: "value_string d ''session_id'' [] = Some sid"
    show r: "?r = info\<lparr> shard_session_id := sid, shard_is_resumable := True, shard_sequence_number := 0 \<rparr>"
      using a by (rule ready_dispatch_effect)
    show "\<not> session_invariant ?r" unfolding r by (simp add: session_invariant_def)
    {
      assume b: "sid \<noteq> [] \<and> t \<noteq> ''READY''"
      then have t: "t \<noteq> ''READY''" and sid: "sid \<noteq> []" by simp_all
      show "session_invariant (handle_shard_event (dispatch_payload t s d') ?r) = (0 < to_int32 s)"
        using dispatch_effect [OF t, of s d' ?r] sid unfolding r
        by (simp add: session_invariant_def)
    }
  }
  {
    assume "value_string d ''session_id'' [] = None"
    then show "?r = info\<lparr> shard_sequence_number := to_int32 n \<rparr>" by (rule ready_dispatch_throws)
  }
qed

text \<open>Witness for C8: READY with session \<^verbatim>\<open>abc\<close>, then a message at sequence 2; and a
  READY whose data are null.\<close>

theorem handle_shard_event_ready_state_witness:
  "handle_shard_event (dispatch_payload ''READY'' 1 (JObject [(''session_id'', JString ''abc'')])) (new_ShardInfo 0 1)
     = (new_ShardInfo 0 1)\<lparr> shard_session_id := ''abc'', shard_is_resumable := True, shard_sequence_number := 0 \<rparr>
   \<and> session_invariant (handle_shard_event (dispatch_payload ''MESSAGE_CREATE'' 2 JNull)
           (handle_shard_event (dispatch_payload ''READY'' 1 (JObject [(''session_id'', JString ''abc'')])) (new_ShardInfo 0 1)))
   \<and> handle_shard_event (dispatch_payload ''READY'' 1 JNull) (new_ShardInfo 0 1)
     = (new_ShardInfo 0 1)\<lparr> shard_sequence_number := 1 \<rparr>"
proof -
  have h: "value_string (JObject [(''session_id'', JString ''abc'')]) ''session_id'' [] = Some ''abc''"
    by simp
  have g: "value_string JNull ''session_id'' [] = None" by simp
  have p: "''abc'' \<noteq> [] \<and> ''MESSAGE_CREATE'' \<noteq> ''READY''" by simp
  have q: "0 < to_int32 2" by (simp add: to_int32_small)
  note r = handle_shard_event_ready_state [where d = "JObject [(''session_id'', JString ''abc'')]" and sid = "''abc''"
      and n = 1 and info = "new_ShardInfo 0 1" and s = 2 and t = "''MESSAGE_CREATE''"
      and d' = JNull]
  note e = handle_shard_event_ready_state [where d = JNull and sid = "[]" and n = 1 and info = "new_ShardInfo 0 1"
      and s = 2 and t = "''MESSAGE_CREATE''" and d' = JNull]
  from r h have a: "handle_shard_event
        (dispatch_payload ''READY'' 1 (JObject [(''session_id'', JString ''abc'')]))
        (new_ShardInfo 0 1)
      = (new_ShardInfo 0 1)\<lparr> shard_session_id := ''abc'', shard_is_resumable := True,
           shard_sequence_number := 0 \<rparr>"
    by blast
  from r h p q have b: "session_invariant
      (handle_shard_event (dispatch_payload ''MESSAGE_CREATE'' 2 JNull)
        (handle_shard_event
          (dispatch_payload ''READY'' 1 (JObject [(''session_id'', JString ''abc'')]))
          (new_ShardInfo 0 1)))"
    by blast
  from e g have "handle_shard_event (dispatch_payload ''READY'' 1 JNull) (new_ShardInfo 0 1)
      = (new_ShardInfo 0 1)\<lparr> shard_sequence_number := to_int32 1 \<rparr>"
    by blast
  then have c: "handle_shard_event (dispatch_payload ''READY'' 1 JNull) (new_ShardInfo 0 1)
      = (new_ShardInfo 0 1)\<lparr> shard_sequence_number := 1 \<rparr>"
    by (simp only: to_int32_small)
  from a b c show ?thesis by blast
qed


text \<open>Counterexample for C8 as stated: in the state reached by READY with session
  \<^verbatim>\<open>abc\<close> at sequence 1 the record is resumable with last sequence 0.\<close>

theorem session_invariant_ready_counterexample:
  "shard_is_resumable (handle_shard_event (dispatch_payload ''READY'' 1 (JObject [(''session_id'', JString ''abc'')])) (new_ShardInfo 0 1))
   \<and> shard_sequence_number (handle_shard_event (dispatch_payload ''READY'' 1 (JObject [(''session_id'', JString ''abc'')])) (new_ShardInfo 0 1)) = 0
   \<and> \<not> session_invariant (handle_shard_event (dispatch_payload ''READY'' 1 (JObject [(''session_id'', JString ''abc'')])) (new_ShardInfo 0 1))"
  by code_simp


subsection \<open>Export and import of the cache (C9)\<close>

lemma to_int32_fits: "fits_int32 n \<Longrightarrow> to_int32 n = n"
  unfolding to_int32_def fits_int32_def by (rule signed_take_bit_int_eq_self) simp_all

lemma assign_fresh: "k \<notin> fst ` set al \<Longrightarrow> assign k v al = al @ [(k, v)]"
  by (simp add: assign_def)

lemma export_fold:
  assumes "distinct (map fst cache)" and "fst ` set acc \<inter> fst ` set cache = {}"
  shows "foldl (\<lambda>acc (key, e). if \<not> is_expired now e then assign key (export_entry e) acc else acc)
           acc cache
         = acc @ map (\<lambda>(k, e). (k, export_entry e)) (live_entries now cache)"
  using assms
proof (induction cache arbitrary: acc)
  case Nil
  then show ?case by (simp add: live_entries_def)
next
  case (Cons x xs)
  obtain k e where x: "x = (k, e)" by (cases x)
  have fresh: "k \<notin> fst ` set acc" using Cons.prems(2) x by auto
  have d: "distinct (map fst xs)" using Cons.prems(1) by simp
  have knot: "k \<notin> fst ` set xs" using Cons.prems(1) x by (simp add: image_iff)
  show ?case
  proof (cases "is_expired now e")
    case True
    have "fst ` set acc \<inter> fst ` set xs = {}" using Cons.prems(2) by auto
    from Cons.IH [OF d this] True x show ?thesis by (simp add: live_entries_def)
  next
    case False
    have "fst ` set (acc @ [(k, export_entry e)]) \<inter> fst ` set xs = {}"
      using Cons.prems(2) knot by auto
    from Cons.IH [OF d this] False x fresh show ?thesis
      by (simp add: live_entries_def assign_fresh)
  qed
qed

lemma export_entries_live:
  "distinct (map fst cache) \<Longrightarrow>
   export_entries now cache = map (\<lambda>(k, e). (k, export_entry e)) (live_entries now cache)"
  unfolding export_entries_def using export_fold [of cache "[]" now] by simp

lemma import_entry_read_back: "import_entry (export_entry e) = Imported (read_back e)"
  by (simp add: import_entry_def export_entry_def read_back_def)

lemma read_back_of_read_back: "read_back_of (k, e) (k, read_back e)"
  by (simp add: read_back_of_def read_back_def to_int32_fits)

lemma import_loop_read_back:
  assumes "distinct (map fst xs)" and "[] \<notin> fst ` set xs"
    and "fst ` set acc \<inter> fst ` set xs = {}"
  shows "import_loop True (map (\<lambda>(k, e). (k, export_entry e)) xs) acc
         = Some (acc @ map (\<lambda>(k, e). (k, read_back e)) xs)"
  using assms
proof (induction xs arbitrary: acc)
  case Nil
  then show ?case by simp
next
  case (Cons x xs)
  obtain k e where x: "x = (k, e)" by (cases x)
  have k: "k \<noteq> []" using Cons.prems(2) x by auto
  have fresh: "k \<notin> fst ` set acc" using Cons.prems(3) x by auto
  have knot: "k \<notin> fst ` set xs" using Cons.prems(1) x by (simp add: image_iff)
  have 1: "distinct (map fst xs)" using Cons.prems(1) by simp
  have 2: "[] \<notin> fst ` set xs" using Cons.prems(2) by auto
  have 3: "fst ` set (acc @ [(k, read_back e)]) \<inter> fst ` set xs = {}"
    using Cons.prems(3) knot by auto
  from Cons.IH [OF 1 2 3] show ?case
    using x k fresh by (simp add: assign_fresh import_entry_read_back)
qed

lemma list_all2_read_back:
  "list_all2 read_back_of xs (map (\<lambda>(k, e). (k, read_back e)) xs)"
  by (induction xs) (auto simp: read_back_of_read_back)

text \<open>
  Claim C9, as the code has it. For a cache with distinct, non-empty keys, read at the
  instant \<open>now\<close>: the export holds the entries that have not expired and no others;
  importing it with overwrite into an empty cache succeeds and gives one entry for each
  of them, in the same order, with the same key, value and persistent flag; and each of
  its two instants is the original's cut to whole seconds wherever that count of seconds
  fits in 32 bits.
\<close>

theorem export_import_round_trip:
  assumes "distinct (map fst cache)" and "[] \<notin> fst ` set cache"
  shows "export_entries now cache = map (\<lambda>(k, e). (k, export_entry e)) (live_entries now cache)
    \<and> (\<exists>imported. import_cache (export_cache now cfg cache) True [] = Some imported
          \<and> list_all2 read_back_of (live_entries now cache) imported)"
proof -
  have ex: "export_entries now cache = map (\<lambda>(k, e). (k, export_entry e)) (live_entries now cache)"
    using assms(1) by (rule export_entries_live)
  have d: "distinct (map fst (live_entries now cache))"
    using assms(1) unfolding live_entries_def by (rule distinct_map_filter)
  have n: "[] \<notin> fst ` set (live_entries now cache)"
    using assms(2) unfolding live_entries_def by auto
  have "import_cache (export_cache now cfg cache) True []
        = import_loop True (export_entries now cache) []"
    by (simp add: import_cache_def export_cache_def)
  also have "\<dots> = Some ([] @ map (\<lambda>(k, e). (k, read_back e)) (live_entries now cache))"
    unfolding ex using d n by (rule import_loop_read_back) simp
  finally have "import_cache (export_cache now cfg cache) True []
        = Some (map (\<lambda>(k, e). (k, read_back e)) (live_entries now cache))" by simp
  then show ?thesis using ex list_all2_read_back by blast
qed

text \<open>Witness for C9: the second example cache comes back without its expired entry
  and with its persistent one.\<close>

theorem export_import_round_trip_witness:
  "distinct (map fst mixed_cache) \<and> [] \<notin> fst ` set mixed_cache
   \<and> live_entries 1700000001000000000 mixed_cache = [mixed_cache ! 0, mixed_cache ! 2]
   \<and> (\<exists>imported. import_cache (export_cache 1700000001000000000 JNull mixed_cache) True [] = Some imported
          \<and> list_all2 read_back_of (live_entries 1700000001000000000 mixed_cache) imported)"
proof -
  have 1: "distinct (map fst mixed_cache)" by (simp add: mixed_cache_def)
  have 2: "[] \<notin> fst ` set mixed_cache" by (simp add: mixed_cache_def)
  have 3: "live_entries 1700000001000000000 mixed_cache = [mixed_cache ! 0, mixed_cache ! 2]"
    by (simp add: live_entries_def mixed_cache_def is_expired_def)
  from export_import_round_trip [OF 1 2, of 1700000001000000000 JNull] 1 2 3
  show ?thesis by blast
qed

text \<open>
  Where the count of seconds does not fit, the instant read back is another one: the
  import reads the count as a 32-bit integer. The instant of an entry that never expires
  comes back as a day in 1990, and the entry, unless persistent, is expired after the
  round trip.
\<close>

lemma sentinel_read_back: "to_int32 (to_seconds time_point_max) = 633437444"
  by (simp add: to_int32_def to_seconds_def time_point_max_def nanos_per_second_def
      signed_take_bit_eq_take_bit_minus take_bit_eq_mod)

lemma unlimited_entry_lost:
  "live_entries 1700000001000000000 unlimited_cache = unlimited_cache
   \<and> (case import_cache (export_cache 1700000001000000000 JNull unlimited_cache) True [] of
        None \<Rightarrow> False
      | Some c \<Rightarrow> map fst c = [''motd''] \<and> live_entries 1700000001000000000 c = [])"
  by code_simp


text \<open>
  Counterexample for C9 as stated: 0.5 s before its entry expires the first example cache
  has one live entry; after export and import the entry's expiry is cut to the full
  second, which has passed, and the imported cache has no live entry.
\<close>

theorem export_import_round_trip_counterexample:
  "live_entries 1700000001200000000 example_cache = example_cache
   \<and> (case import_cache (export_cache 1700000001200000000 JNull example_cache) True [] of
        None \<Rightarrow> False
      | Some c \<Rightarrow> live_entries 1700000001200000000 c = [])"
  by code_simp

subsection \<open>Removing a handler (C10)\<close>

lemma remove_if_length: "length (fst (remove_if p mv xs)) = length xs"
  by (simp add: remove_if_def Let_def)

lemma remove_if_found:
  "snd (remove_if p mv xs) \<noteq> length (fst (remove_if p mv xs)) \<longleftrightarrow> filter p xs \<noteq> []"
proof -
  have "length (filter (\<lambda>x. \<not> p x) xs) = length xs \<longleftrightarrow> filter p xs = []"
    by (metis (mono_tags, lifting) filter_False filter_True length_filter_less less_irrefl filter_empty_conv)
  then show ?thesis using remove_if_length [of p mv xs] by (simp add: remove_if_def Let_def)
qed

text \<open>When \<^verbatim>\<open>off\<close> answers true a handler with that id was registered, and the event
  has as many handlers afterwards as before.\<close>

lemma off_keeps_count:
  assumes "off moved event_name hid d = (True, d1)"
  shows "handlers_with_id d event_name hid \<noteq> [] \<and> handler_count d1 event_name = handler_count d event_name"
proof (cases "handlers d event_name")
  case None
  then show ?thesis using assms by (simp add: off_def)
next
  case (Some hs)
  let ?r = "remove_if (\<lambda>info. handler_id info = hid) moved hs"
  have r: "snd ?r \<noteq> length (fst ?r)" and d1: "d1 = d\<lparr> handlers := (handlers d)(event_name \<mapsto> fst ?r) \<rparr>"
    using assms Some by (auto simp: off_def split_beta Let_def)
  have "filter (\<lambda>info. handler_id info = hid) hs \<noteq> []" using r by (simp add: remove_if_found)
  then show ?thesis using Some d1 remove_if_length [of "\<lambda>info. handler_id info = hid" moved hs]
    by (simp add: handlers_with_id_def handler_count_def)
qed

text \<open>
  Claim C10 on a run: one handler \<^verbatim>\<open>h1\<close> is registered for \<^verbatim>\<open>MESSAGE_CREATE\<close> and then
  removed with \<^verbatim>\<open>off\<close>. The call answers true, the handler list of the event is what it
  was, still one handler long, and the next \<^verbatim>\<open>emit\<close> calls the callback 7.
\<close>

theorem off_then_emit_calls_removed:
  "fst (off moved ''MESSAGE_CREATE'' ''h1'' one_handler) = True
   \<and> handlers (snd (off moved ''MESSAGE_CREATE'' ''h1'' one_handler)) ''MESSAGE_CREATE''
       = handlers one_handler ''MESSAGE_CREATE''
   \<and> handler_count (snd (off moved ''MESSAGE_CREATE'' ''h1'' one_handler)) ''MESSAGE_CREATE'' = 1
   \<and> map_option snd (emit moved ''MESSAGE_CREATE'' data (snd (off moved ''MESSAGE_CREATE'' ''h1'' one_handler))) = Some [7]"
  by code_simp


end
